theory Spec2Isabelle
  imports Main "HOL-Library.Word" "HOL-Library.AList"
begin

section \<open>The perishable offer registry (pkg/offers/offers.go)\<close>

text \<open>
  Time is an integer count of nanoseconds, both for instants (time.Time) and for
  durations (time.Duration). Every operation that reads the clock takes the instant
  \<open>now\<close> as an argument. Logging and Prometheus counters are not part of the state.

  Offers are Go pointers (\<open>*liveOffer\<close>, \<open>*expiredOffer\<close>) shared between the registry,
  the tasks that hold them and the deferred decline closures, so the model keeps an
  explicit store \<open>objs\<close> from references to offer objects.
\<close>

type_synonym time = int
type_synonym ref = nat

record mesos_Offer =
  offer_Id :: string
  offer_Hostname :: string
  offer_SlaveId :: string

datatype Perishable =
    liveOffer mesos_Offer time "32 word"
  | expiredOffer string string time

definition offerListenerMaxAge :: "64 word" where
  "offerListenerMaxAge = 12"

definition deferredDeclineTtlFactor :: time where
  "deferredDeclineTtlFactor = 2"


fun host :: "Perishable \<Rightarrow> string" where
  "host (liveOffer d e a) = offer_Hostname d"
| "host (expiredOffer i h dl) = h"

fun HasExpired :: "time \<Rightarrow> Perishable \<Rightarrow> bool" where
  "HasExpired now (liveOffer d e a) = (e < now)"
| "HasExpired now (expiredOffer i h dl) = True"

fun Details :: "Perishable \<Rightarrow> mesos_Offer option" where
  "Details (liveOffer d e a) = Some d"
| "Details (expiredOffer i h dl) = None"

text \<open>atomic.CompareAndSwapInt32: the swap happened, and the new contents.\<close>

definition CompareAndSwapInt32 :: "32 word \<Rightarrow> 32 word \<Rightarrow> 32 word \<Rightarrow> bool \<times> 32 word" where
  "CompareAndSwapInt32 v old new = (if v = old then (True, new) else (False, v))"

fun Acquire :: "Perishable \<Rightarrow> bool \<times> Perishable" where
  "Acquire (liveOffer d e a) =
     (case CompareAndSwapInt32 a 0 1 of (acq, a') \<Rightarrow> (acq, liveOffer d e a'))"
| "Acquire (expiredOffer i h dl) = (False, expiredOffer i h dl)"

fun Release :: "Perishable \<Rightarrow> Perishable" where
  "Release (liveOffer d e a) =
     (case CompareAndSwapInt32 a 1 0 of (released, a') \<Rightarrow> liveOffer d e a')"
| "Release (expiredOffer i h dl) = expiredOffer i h dl"

fun acquired :: "Perishable \<Rightarrow> 32 word option" where
  "acquired (liveOffer d e a) = Some a"
| "acquired (expiredOffer i h dl) = None"

text \<open>
  A history of calls on one offer object. Acquire and Release are single atomic
  compare-and-swap instructions, so every concurrent execution is one such sequence.
  \<open>run_ops\<close> returns the results of the Acquire calls, in order, and the final object.
\<close>

datatype offer_op = OpAcquire | OpRelease

fun run_ops :: "Perishable \<Rightarrow> offer_op list \<Rightarrow> bool list \<times> Perishable" where
  "run_ops p [] = ([], p)"
| "run_ops p (OpAcquire # ops) =
     (case Acquire p of (b, p') \<Rightarrow> (case run_ops p' ops of (bs, q) \<Rightarrow> (b # bs, q)))"
| "run_ops p (OpRelease # ops) = run_ops (Release p) ops"

subsection \<open>Listeners, channels and the delay FIFO\<close>

datatype InsertionPolicy = ReplaceExisting | KeepExisting

text \<open>
  Modelled from the spec: the Delay FIFO of pkg/queue, which is not among the sources.
  Section 4.1: it "layers insertion ordering and unique-key semantics" on a queue
  ordered by deadline, \<open>Add(x, policy)\<close> with the two policies, and \<open>Offer(x, policy)\<close>
  "returns false if the item was not accepted because the policy refused replacement";
  \<open>Delete(key)\<close> removes the entry of a key. The model is a list of keyed entries in
  insertion order with at most one entry per key.
\<close>

type_synonym 'a DelayFIFO = "(string \<times> 'a) list"

text \<open>Modelled from the spec: \<open>Delete(key)\<close> of the Delay FIFO (pkg/queue) removes the entry of the key.\<close>

definition fifo_Delete :: "string \<Rightarrow> 'a DelayFIFO \<Rightarrow> 'a DelayFIFO" where
  "fifo_Delete k q = filter (\<lambda>e. fst e \<noteq> k) q"

text \<open>Modelled from the spec: \<open>Offer(x, policy)\<close> of the Delay FIFO (pkg/queue); false when
  \<open>KeepExisting\<close> refused to replace the entry of the key.\<close>

definition fifo_Offer :: "string \<Rightarrow> 'a \<Rightarrow> InsertionPolicy \<Rightarrow> 'a DelayFIFO \<Rightarrow> bool \<times> 'a DelayFIFO" where
  "fifo_Offer k x policy q =
     (case map_of q k of
        None \<Rightarrow> (True, q @ [(k, x)])
      | Some y \<Rightarrow>
          (case policy of
             KeepExisting \<Rightarrow> (False, q)
           | ReplaceExisting \<Rightarrow> (True, fifo_Delete k q @ [(k, x)])))"

text \<open>Modelled from the spec: \<open>Add(x, policy)\<close> of the Delay FIFO (pkg/queue), \<open>Offer\<close> without its result.\<close>

definition fifo_Add :: "string \<Rightarrow> 'a \<Rightarrow> InsertionPolicy \<Rightarrow> 'a DelayFIFO \<Rightarrow> 'a DelayFIFO" where
  "fifo_Add k x policy q = snd (fifo_Offer k x policy q)"

text \<open>
  Modelled from the spec: \<open>Pop\<close> of the Delay FIFO yields the entry with the earliest
  deadline (section 4.1: "keyed by a Deadline() method (earliest first), with a Pop()
  that blocks until the head's deadline"). On an empty queue \<open>Pop\<close> blocks: the model
  returns None.
\<close>

fun fifo_earliest :: "('a \<Rightarrow> time) \<Rightarrow> (string \<times> 'a) \<Rightarrow> 'a DelayFIFO \<Rightarrow> (string \<times> 'a)" where
  "fifo_earliest dl best [] = best"
| "fifo_earliest dl best (e # q) =
     (if dl (snd e) < dl (snd best) then fifo_earliest dl e q else fifo_earliest dl best q)"

definition fifo_Pop :: "('a \<Rightarrow> time) \<Rightarrow> 'a DelayFIFO \<Rightarrow> ('a \<times> 'a DelayFIFO) option" where
  "fifo_Pop dl q =
     (case q of
        [] \<Rightarrow> None
      | e # r \<Rightarrow> (let b = fifo_earliest dl e r in Some (snd b, fifo_Delete (fst b) q)))"

text \<open>
  A channel of type \<open>chan struct{}\<close> on which nothing is ever sent is open or closed.
  \<open>make\<close> allocates the next channel; closing a closed channel panics in Go.
\<close>

datatype chan_state = ChanOpen | ChanClosed

type_synonym chan = nat

datatype panic = CloseOfClosedChannel | NilDereference | IndexOutOfRange

text \<open>
  A Filter is a Go closure: it may read shared state of its creator when it is called.
  The type parameter \<open>'w\<close> is that state, handed to the filter at the call.
  The argument is \<open>offer.Details()\<close>, a pointer that may be nil.
\<close>

type_synonym 'w Filter = "'w \<Rightarrow> mesos_Offer option \<Rightarrow> bool"

record 'w offerListener =
  l_id :: string
  accepts :: "'w Filter"
  notify :: chan
  age :: "64 word"
  l_deadline :: time
  sawVersion :: "64 word"

record 'w offerStorage =
  TTL :: time
  LingerTTL :: time
  ListenerDelay :: time
  objs :: "ref \<Rightarrow> Perishable"
  next_ref :: ref
  offers :: "(string \<times> ref) list"
  delayed :: "ref list"
  listeners :: "'w offerListener DelayFIFO"
  chans :: "chan_state list"
  declined :: "string list"
  timers :: "(time \<times> string \<times> ref) list"

text \<open>
  \<open>offers\<close> is the cache.FIFO of the Kubernetes client library, keyed by \<open>uid\<close>: a keyed
  store where Add and Update set the entry of a key and Delete removes it.
  \<open>declined\<close> records the calls of the \<open>DeclineOffer\<close> callback of the configuration;
  its result only selects a log line or a counter. \<open>timers\<close> holds the closures handed
  to time.AfterFunc in \<open>Delete\<close>: the instant they are due, and the two variables
  (\<open>offerId\<close>, \<open>offer\<close>) they capture.
\<close>

definition CreateRegistry :: "time \<Rightarrow> time \<Rightarrow> time \<Rightarrow> 'w offerStorage" where
  "CreateRegistry ttl linger delay =
     \<lparr> TTL = ttl, LingerTTL = linger, ListenerDelay = delay,
       objs = (\<lambda>r. expiredOffer [] [] 0), next_ref = 0,
       offers = [], delayed = [], listeners = [], chans = [],
       declined = [], timers = [] \<rparr>"

definition new_obj :: "Perishable \<Rightarrow> 'w offerStorage \<Rightarrow> ref \<times> 'w offerStorage" where
  "new_obj p s = (next_ref s, s\<lparr> objs := (objs s)(next_ref s := p), next_ref := Suc (next_ref s) \<rparr>)"

fun Add :: "time \<Rightarrow> 'w offerStorage \<Rightarrow> mesos_Offer list \<Rightarrow> 'w offerStorage" where
  "Add now s [] = s"
| "Add now s (offer # rest) =
     (case new_obj (liveOffer offer (now + TTL s) 0) s of
        (timed, s1) \<Rightarrow>
          Add now (s1\<lparr> offers := AList.update (offer_Id offer) timed (offers s1),
                       delayed := delayed s1 @ [timed] \<rparr>) rest)"

definition Get :: "'w offerStorage \<Rightarrow> string \<Rightarrow> ref option" where
  "Get s i = map_of (offers s) i"

definition obj_Acquire :: "'w offerStorage \<Rightarrow> ref \<Rightarrow> bool \<times> 'w offerStorage" where
  "obj_Acquire s r = (case Acquire (objs s r) of (b, p) \<Rightarrow> (b, s\<lparr> objs := (objs s)(r := p) \<rparr>))"


definition DeclineOffer :: "'w offerStorage \<Rightarrow> string \<Rightarrow> 'w offerStorage" where
  "DeclineOffer s offerId = s\<lparr> declined := declined s @ [offerId] \<rparr>"

definition Expired :: "time \<Rightarrow> string \<Rightarrow> string \<Rightarrow> time \<Rightarrow> Perishable" where
  "Expired now offerId hostname ttl = expiredOffer offerId hostname (now + ttl)"

definition expireOffer :: "time \<Rightarrow> 'w offerStorage \<Rightarrow> ref \<Rightarrow> 'w offerStorage" where
  "expireOffer now s offer =
     (case Details (objs s offer) of
        Some details \<Rightarrow>
          (let offerId = offer_Id details in
           if LingerTTL s > 0 then
             (case new_obj (Expired now offerId (host (objs s offer)) (LingerTTL s)) s of
                (expired, s1) \<Rightarrow>
                  s1\<lparr> offers := AList.update offerId expired (offers s1),
                      delayed := delayed s1 @ [expired] \<rparr>)
           else s\<lparr> offers := AList.delete offerId (offers s) \<rparr>)
      | None \<Rightarrow> s)"

text \<open>The closure that \<open>Delete\<close> defers by \<open>deferredDeclineTtlFactor * TTL\<close>.\<close>

definition deferredDecline :: "'w offerStorage \<Rightarrow> string \<Rightarrow> ref \<Rightarrow> 'w offerStorage" where
  "deferredDecline s offerId offer =
     (case obj_Acquire s offer of
        (acq, s1) \<Rightarrow> if acq then DeclineOffer s1 offerId else s1)"

definition Delete :: "time \<Rightarrow> 'w offerStorage \<Rightarrow> string \<Rightarrow> 'w offerStorage" where
  "Delete now s offerId =
     (case Get s offerId of
        Some offer \<Rightarrow>
          (case obj_Acquire s offer of
             (notYetClaimed, s1) \<Rightarrow>
               expireOffer now
                 (if Details (objs s1 offer) \<noteq> None then
                    (if notYetClaimed then DeclineOffer s1 offerId
                     else s1\<lparr> timers := timers s1 @
                            [(now + deferredDeclineTtlFactor * TTL s1, offerId, offer)] \<rparr>)
                  else s1)
                 offer)
      | None \<Rightarrow> s)"

text \<open>A timer that is due runs its closure once and is gone.\<close>

fun fire_timers :: "time \<Rightarrow> (time \<times> string \<times> ref) list \<Rightarrow> 'w offerStorage \<Rightarrow> 'w offerStorage" where
  "fire_timers now [] s = s\<lparr> timers := [] \<rparr>"
| "fire_timers now ((t, offerId, offer) # ts) s =
     (if t \<le> now then fire_timers now ts (deferredDecline s offerId offer)
      else (case fire_timers now ts s of s1 \<Rightarrow> s1\<lparr> timers := (t, offerId, offer) # timers s1 \<rparr>))"

definition invalidateOne :: "time \<Rightarrow> 'w offerStorage \<Rightarrow> string \<Rightarrow> 'w offerStorage" where
  "invalidateOne now s offerId =
     (case Get s offerId of
        Some offer \<Rightarrow> (case obj_Acquire s offer of (b, s1) \<Rightarrow> expireOffer now s1 offer)
      | None \<Rightarrow> s)"

fun invalidateAll :: "time \<Rightarrow> 'w offerStorage \<Rightarrow> ref list \<Rightarrow> 'w offerStorage" where
  "invalidateAll now s [] = s"
| "invalidateAll now s (offer # rest) =
     (case obj_Acquire s offer of (b, s1) \<Rightarrow> invalidateAll now (expireOffer now s1 offer) rest)"

definition Invalidate :: "time \<Rightarrow> 'w offerStorage \<Rightarrow> string \<Rightarrow> 'w offerStorage" where
  "Invalidate now s offerId =
     (if offerId \<noteq> [] then invalidateOne now s offerId
      else invalidateAll now s (map snd (offers s)))"

definition make_chan :: "'w offerStorage \<Rightarrow> chan \<times> 'w offerStorage" where
  "make_chan s = (length (chans s), s\<lparr> chans := chans s @ [ChanOpen] \<rparr>)"

text \<open>
  \<open>Listen\<close>: a nil filter is None, and the nil channel returned for it is None.
\<close>

definition Listen :: "time \<Rightarrow> 'w offerStorage \<Rightarrow> string \<Rightarrow> 'w Filter option
    \<Rightarrow> chan option \<times> 'w offerStorage" where
  "Listen now s i f =
     (case f of
        None \<Rightarrow> (None, s)
      | Some flt \<Rightarrow>
          (case make_chan s of
             (ch, s1) \<Rightarrow>
               (let listen = \<lparr> l_id = i, accepts = flt, notify = ch, age = 0,
                               l_deadline = now + ListenerDelay s1, sawVersion = 0 \<rparr>
                in (Some ch,
                    s1\<lparr> listeners := snd (fifo_Offer (l_id listen) listen ReplaceExisting
                                              (listeners s1)) \<rparr>))))"


subsection \<open>Listener notification\<close>

definition close_chan :: "chan \<Rightarrow> chan_state list \<Rightarrow> panic + chan_state list" where
  "close_chan c cs =
     (if c < length cs \<and> cs ! c = ChanOpen then Inr (cs[c := ChanClosed])
      else Inl CloseOfClosedChannel)"

text \<open>
  The loop of \<open>notifyListeners\<close> over the cached offer ids: True when it reached
  \<open>close(listener.notify)\<close>. A Go map is ranged over in an order of the runtime's
  choosing; the list is that order.
\<close>

fun scan_offers :: "time \<Rightarrow> 'w \<Rightarrow> 'w offerStorage \<Rightarrow> 'w offerListener \<Rightarrow> string list \<Rightarrow> bool" where
  "scan_offers now w s listener [] = False"
| "scan_offers now w s listener (i # ids) =
     (case Get s i of
        None \<Rightarrow> scan_offers now w s listener ids
      | Some offer \<Rightarrow>
          if HasExpired now (objs s offer) then scan_offers now w s listener ids
          else if accepts listener w (Details (objs s offer)) then True
          else scan_offers now w s listener ids)"

definition requeue_listener :: "time \<Rightarrow> 'w offerStorage \<Rightarrow> 'w offerListener \<Rightarrow> 'w offerStorage" where
  "requeue_listener now s listener =
     (let l = listener\<lparr> l_deadline := now + ListenerDelay s \<rparr>
      in s\<lparr> listeners := snd (fifo_Offer (l_id l) l KeepExisting (listeners s)) \<rparr>)"

text \<open>
  \<open>notifyListener\<close> is the body of \<open>notifyListeners\<close> after \<open>nextListener\<close> has popped
  \<open>listener\<close>; \<open>ids\<close> is what the call \<open>ids()\<close> returned, and \<open>w\<close> the state the filter reads.
  The age is a Go \<open>int\<close>, compared as a signed 64-bit number.
\<close>

definition notifyListener :: "time \<Rightarrow> 'w \<Rightarrow> 'w offerStorage \<Rightarrow> string list \<times> 64 word
    \<Rightarrow> 'w offerListener \<Rightarrow> panic + 'w offerStorage" where
  "notifyListener now w s ids listener =
     (case ids of
        (offerIds, version) \<Rightarrow>
          if sawVersion listener = version then Inr (requeue_listener now s listener)
          else
            (let l1 = listener\<lparr> sawVersion := version \<rparr> in
             if scan_offers now w s l1 offerIds then
               (case close_chan (notify l1) (chans s) of
                  Inl p \<Rightarrow> Inl p
                | Inr cs \<Rightarrow> Inr (s\<lparr> chans := cs \<rparr>))
             else
               (let l2 = l1\<lparr> age := age l1 + 1 \<rparr> in
                if age l2 <s offerListenerMaxAge then Inr (requeue_listener now s l2)
                else Inr s)))"

text \<open>\<open>notifyListeners\<close> blocks in \<open>nextListener\<close> while no listener is queued: None.\<close>

definition notifyListeners :: "time \<Rightarrow> 'w \<Rightarrow> 'w offerStorage \<Rightarrow> string list \<times> 64 word
    \<Rightarrow> (panic + 'w offerStorage) option" where
  "notifyListeners now w s ids =
     (case fifo_Pop l_deadline (listeners s) of
        None \<Rightarrow> None
      | Some (listener, q) \<Rightarrow> Some (notifyListener now w (s\<lparr> listeners := q \<rparr>) ids listener))"

text \<open>One offer id of the cache matches a listener: the registry has it, it has not expired,
  and the filter accepts its details.\<close>

definition offer_matches :: "time \<Rightarrow> 'w \<Rightarrow> 'w offerStorage \<Rightarrow> 'w offerListener \<Rightarrow> string \<Rightarrow> bool" where
  "offer_matches now w s listener i =
     (case Get s i of
        None \<Rightarrow> False
      | Some offer \<Rightarrow> \<not> HasExpired now (objs s offer) \<and> accepts listener w (Details (objs s offer)))"

text \<open>
  Histories of calls on one registry. The registry's operations are serialised by the
  locks of its queues; a call of \<open>notifyListeners\<close> that blocks takes no step.
\<close>

datatype 'w registry_call =
    CallAdd time "mesos_Offer list"
  | CallDelete time string
  | CallInvalidate time string
  | CallListen time string "'w Filter option"
  | CallNotify time 'w "string list" "64 word"
  | CallTimers time

fun registry_step :: "'w offerStorage \<Rightarrow> 'w registry_call \<Rightarrow> panic + 'w offerStorage" where
  "registry_step s (CallAdd now os) = Inr (Add now s os)"
| "registry_step s (CallDelete now i) = Inr (Delete now s i)"
| "registry_step s (CallInvalidate now i) = Inr (Invalidate now s i)"
| "registry_step s (CallListen now i f) = Inr (snd (Listen now s i f))"
| "registry_step s (CallNotify now w ids version) =
     (case notifyListeners now w s (ids, version) of None \<Rightarrow> Inr s | Some r \<Rightarrow> r)"
| "registry_step s (CallTimers now) = Inr (fire_timers now (timers s) s)"

fun registry_run :: "'w offerStorage \<Rightarrow> 'w registry_call list \<Rightarrow> panic + 'w offerStorage" where
  "registry_run s [] = Inr s"
| "registry_run s (c # cs) =
     (case registry_step s c of Inl p \<Rightarrow> Inl p | Inr s' \<Rightarrow> registry_run s' cs)"

text \<open>
  The listeners queue is well formed when every entry is stored under its listener's
  id, no two entries share an id or a channel, and every queued channel is open.
\<close>

definition listeners_ok :: "'w offerStorage \<Rightarrow> bool" where
  "listeners_ok s =
     (distinct (map fst (listeners s))
      \<and> distinct (map (\<lambda>e. notify (snd e)) (listeners s))
      \<and> list_all (\<lambda>e. l_id (snd e) = fst e \<and> notify (snd e) < length (chans s)
                      \<and> chans s ! notify (snd e) = ChanOpen) (listeners s))"

subsection \<open>A registry with one offer and one listener\<close>

definition ex_offer :: mesos_Offer where
  "ex_offer = \<lparr> offer_Id = ''o1'', offer_Hostname = ''h1'', offer_SlaveId = ''s1'' \<rparr>"

definition ex_registry :: "unit offerStorage" where
  "ex_registry = snd (Listen 0 (Add 0 (CreateRegistry 10 5 0) [ex_offer]) ''pod1''
                        (Some (\<lambda>w d. d \<noteq> None)))"

definition ex_listener :: "unit offerListener" where
  "ex_listener = \<lparr> l_id = ''pod1'', accepts = (\<lambda>w d. d \<noteq> None), notify = 0, age = 0,
                    l_deadline = 0, sawVersion = 0 \<rparr>"

subsection \<open>Registries for the examples of Delete\<close>




section \<open>The executor\<close>

text \<open>
  The types of the Kubernetes and Mesos APIs that the executor and the scheduler
  exchange, reduced to the fields the code reads or writes. A Go map is a partial
  function; a nil map reads as the empty one.
\<close>

record EnvVar =
  ev_Name :: string
  ev_Value :: string

record Port =
  HostPort :: int
  ContainerPort :: int

record Container =
  c_Env :: "EnvVar list"
  c_Ports :: "Port list"

record BoundPod =
  bp_Name :: string
  bp_Namespace :: string
  bp_SelfLink :: string
  bp_Annotations :: "string \<rightharpoonup> string"
  bp_Containers :: "Container list"

record Binding =
  b_Namespace :: string
  b_PodID :: string
  b_Host :: string
  b_Annotations :: "string \<rightharpoonup> string"

record mesos_TaskInfo =
  ti_TaskId :: "string option"
  ti_SlaveId :: "string option"
  ti_Data :: "string option"

datatype TaskState = TASK_STARTING | TASK_RUNNING | TASK_FAILED | TASK_KILLED | TASK_LOST

text \<open>
  The constants of the package \<open>messages\<close> (not among the sources) by name, and the two
  messages the executor builds itself.
\<close>

datatype message =
    ExecutorUnregistered | UnmarshalTaskDataFailure | CreateBindingFailure
  | CreateBindingSuccess | LaunchTaskFailed | ContainersDisappeared | TaskKilled
  | TaskLostAck | ErrorText string | PodRunning string

record TaskStatus =
  ts_TaskId :: string
  ts_State :: TaskState
  ts_Message :: message
  ts_Data :: "string option"

datatype stateType = disconnectedState | connectedState | doneState

record kuberTask =
  mesosTaskInfo :: mesos_TaskInfo
  podName :: string

datatype goroutine =
    Go_launchTask string BoundPod
  | Go_launchTask2 string string

text \<open>
  The executor. \<open>ex_done\<close> is whether the channel \<open>done\<close> is closed. \<open>outgoing\<close> is the
  buffered channel of status senders, in the order they were put in (a send on a full
  buffer waits for the sender loop, which alone takes from it). \<open>updates\<close> are the pod
  sets sent on \<open>updateChan\<close>, \<open>posts\<close> the bindings posted to the API server, and
  \<open>spawned\<close> the goroutines started with \<open>go\<close>, which run later.
\<close>

record KubernetesExecutor =
  ex_state :: stateType
  ex_tasks :: "string \<rightharpoonup> kuberTask"
  ex_pods :: "(string \<times> BoundPod) list"
  ex_done :: bool
  outgoing :: "TaskStatus list"
  updates :: "BoundPod list list"
  posts :: "Binding list"
  spawned :: "goroutine list"
  sourcename :: string

text \<open>
  What the executor calls outside the sources: \<open>yaml.Unmarshal\<close> of the task data into a
  bound pod, the POST of a binding (None: no error), \<open>kubelet.GetPodFullName\<close> for a
  name, a namespace and the source name, and \<open>json.Marshal\<close> of the status result of a
  pod name. None stands for a nil error.
\<close>

record exec_env =
  Unmarshal :: "string option \<Rightarrow> string + BoundPod"
  PostBinding :: "Binding \<Rightarrow> string option"
  GetPodFullName :: "string \<Rightarrow> string \<Rightarrow> string \<Rightarrow> string"
  MarshalStatus :: "string \<Rightarrow> string + string"
  BindingHostKey :: string

definition isDone :: "KubernetesExecutor \<Rightarrow> bool" where
  "isDone k = ex_done k"

definition isConnected :: "KubernetesExecutor \<Rightarrow> bool" where
  "isConnected k = (connectedState = ex_state k)"

definition newStatus :: "string option \<Rightarrow> TaskState \<Rightarrow> message \<Rightarrow> TaskStatus" where
  "newStatus taskId st msg =
     \<lparr> ts_TaskId = (case taskId of None \<Rightarrow> [] | Some i \<Rightarrow> i), ts_State = st,
       ts_Message = msg, ts_Data = None \<rparr>"

definition sendStatus :: "KubernetesExecutor \<Rightarrow> TaskStatus \<Rightarrow> KubernetesExecutor" where
  "sendStatus k status = (if ex_done k then k else k\<lparr> outgoing := outgoing k @ [status] \<rparr>)"

definition LaunchTask :: "exec_env \<Rightarrow> KubernetesExecutor \<Rightarrow> mesos_TaskInfo \<Rightarrow> KubernetesExecutor" where
  "LaunchTask env k taskInfo =
     (if isDone k then k
      else if \<not> isConnected k then
        sendStatus k (newStatus (ti_TaskId taskInfo) TASK_FAILED ExecutorUnregistered)
      else
        (case Unmarshal env (ti_Data taskInfo) of
           Inl err \<Rightarrow>
             sendStatus k (newStatus (ti_TaskId taskInfo) TASK_FAILED UnmarshalTaskDataFailure)
         | Inr pod \<Rightarrow>
             (let taskId = (case ti_TaskId taskInfo of None \<Rightarrow> [] | Some i \<Rightarrow> i) in
              case ex_tasks k taskId of
                Some found \<Rightarrow> k
              | None \<Rightarrow>
                  k\<lparr> ex_tasks := (ex_tasks k)(taskId \<mapsto> \<lparr> mesosTaskInfo = taskInfo, podName = [] \<rparr>),
                     spawned := spawned k @ [Go_launchTask taskId pod] \<rparr>)))"

definition send_pods :: "KubernetesExecutor \<Rightarrow> KubernetesExecutor" where
  "send_pods k = k\<lparr> updates := updates k @ [map snd (ex_pods k)] \<rparr>"

definition removePodTask :: "KubernetesExecutor \<Rightarrow> string \<Rightarrow> message \<Rightarrow> TaskState \<Rightarrow> KubernetesExecutor" where
  "removePodTask k tid reason st =
     (case ex_tasks k tid of
        None \<Rightarrow> k
      | Some task \<Rightarrow>
          (let k1 = k\<lparr> ex_tasks := (ex_tasks k)(tid := None) \<rparr>;
               pid = podName task;
               k2 = (case map_of (ex_pods k1) pid of
                       None \<Rightarrow> k1
                     | Some found \<Rightarrow> send_pods (k1\<lparr> ex_pods := AList.delete pid (ex_pods k1) \<rparr>))
           in sendStatus k2 (newStatus (Some tid) st reason)))"

definition killPodForTask :: "KubernetesExecutor \<Rightarrow> string \<Rightarrow> message \<Rightarrow> KubernetesExecutor" where
  "killPodForTask k tid reason = removePodTask k tid reason TASK_KILLED"

definition reportLostTask :: "KubernetesExecutor \<Rightarrow> string \<Rightarrow> message \<Rightarrow> KubernetesExecutor" where
  "reportLostTask k tid reason = removePodTask k tid reason TASK_LOST"

text \<open>
  \<open>launchTask\<close>, the continuation that \<open>LaunchTask\<close> starts as a goroutine. It is the only
  place where a binding is posted.
\<close>

definition launchTask :: "exec_env \<Rightarrow> KubernetesExecutor \<Rightarrow> string \<Rightarrow> BoundPod \<Rightarrow> KubernetesExecutor" where
  "launchTask env k taskId pod =
     (let binding = \<lparr> b_Namespace = bp_Namespace pod, b_PodID = bp_Name pod,
                       b_Host = (case bp_Annotations pod (BindingHostKey env) of
                                   None \<Rightarrow> [] | Some h \<Rightarrow> h),
                       b_Annotations = bp_Annotations pod \<rparr>;
          k1 = k\<lparr> posts := posts k @ [binding] \<rparr>
      in case PostBinding env binding of
           Some err \<Rightarrow> sendStatus k1 (newStatus (Some taskId) TASK_FAILED CreateBindingFailure)
         | None \<Rightarrow>
             (let podFullName = GetPodFullName env (bp_Name pod) (bp_Namespace pod) (sourcename k1) in
              case MarshalStatus env podFullName of
                Inl err \<Rightarrow> sendStatus k1 (newStatus (Some taskId) TASK_FAILED (ErrorText err))
              | Inr data \<Rightarrow>
                  (case ex_tasks k1 taskId of
                     None \<Rightarrow> reportLostTask k1 taskId LaunchTaskFailed
                   | Some task \<Rightarrow>
                       (let k2 = k1\<lparr> ex_tasks := (ex_tasks k1)(taskId \<mapsto> task\<lparr> podName := podFullName \<rparr>),
                                      ex_pods := AList.update podFullName pod (ex_pods k1) \<rparr>;
                            k3 = send_pods k2;
                            k4 = sendStatus k3 \<lparr> ts_TaskId = taskId, ts_State = TASK_STARTING,
                                    ts_Message = CreateBindingSuccess, ts_Data = Some data \<rparr>
                        in k4\<lparr> spawned := spawned k4 @ [Go_launchTask2 taskId podFullName] \<rparr>))))"

definition KillTask :: "KubernetesExecutor \<Rightarrow> string \<Rightarrow> KubernetesExecutor" where
  "KillTask k taskId =
     (if isDone k then k
      else if \<not> isConnected k then k
      else killPodForTask k taskId TaskKilled)"

text \<open>\<open>strings.HasPrefix(s, prefix)\<close> of the Go library, on byte strings.\<close>

definition HasPrefix :: "string \<Rightarrow> string \<Rightarrow> bool" where
  "HasPrefix s pre = (length pre \<le> length s \<and> take (length pre) s = pre)"

definition FrameworkMessage :: "KubernetesExecutor \<Rightarrow> string \<Rightarrow> KubernetesExecutor" where
  "FrameworkMessage k msg =
     (if isDone k then k
      else if \<not> isConnected k then k
      else if HasPrefix ''task-lost:'' msg \<and> 10 < length msg then
        (let taskId = drop 10 msg in
         if taskId \<noteq> [] then reportLostTask k taskId TaskLostAck else k)
      else k)"

definition ex_env :: exec_env where
  "ex_env = \<lparr> Unmarshal = (\<lambda>d. case d of None \<Rightarrow> Inl ''no data''
                 | Some y \<Rightarrow> Inr \<lparr> bp_Name = y, bp_Namespace = ''default'', bp_SelfLink = [],
                                   bp_Annotations = Map.empty, bp_Containers = [] \<rparr>),
               PostBinding = (\<lambda>b. None),
               GetPodFullName = (\<lambda>n ns src. n @ ''.'' @ ns @ ''.'' @ src),
               MarshalStatus = (\<lambda>n. Inr n),
               BindingHostKey = ''host'' \<rparr>"

definition ex_executor :: "stateType \<Rightarrow> KubernetesExecutor" where
  "ex_executor st = \<lparr> ex_state = st, ex_tasks = Map.empty, ex_pods = [], ex_done = False,
      outgoing = [], updates = [], posts = [], spawned = [], sourcename = ''src'' \<rparr>"

definition ex_taskInfo :: "string option \<Rightarrow> mesos_TaskInfo" where
  "ex_taskInfo d = \<lparr> ti_TaskId = Some ''t1'', ti_SlaveId = Some ''s1'', ti_Data = d \<rparr>"

section \<open>The scheduler plugin (pkg/scheduler/plugin.go)\<close>

record api_Pod =
  pod_Name :: string
  pod_Namespace :: string
  pod_UID :: string
  pod_Host :: string

datatype error = noSuchPodErr | noSuchTaskErr | noSuitableOffersErr | Errorf string | External string

datatype StateType = StatePending | StateRunning | StateFinished | StateUnknown

datatype FlagType = Launched | Bound | Deleted

datatype EventType = ADD_EVENT | UPDATE_EVENT | DELETE_EVENT | POP_EVENT

record HostPortMapping =
  ContainerIdx :: int
  PortIdx :: int
  OfferPort :: "64 word"

text \<open>
  Modelled from the spec: the task record \<open>podtask.T\<close> and its methods, which are not among
  the sources. Section 3 gives a task the fields \<open>taskId\<close>, \<open>podKey\<close>, \<open>pod\<close>, an optional
  \<open>offer\<close>, an optional \<open>taskInfo\<close>, \<open>flags\<close>, \<open>state\<close> and \<open>ports\<close>, with the lifecycle
  "create, Pending, (with offer) pending+accepted, Running, Finished". The offer is a
  reference to the offer object that placement acquired. A task has accepted an offer
  when its task info is filled (\<open>FillFromDetails\<close>, after \<open>Schedule\<close> recorded the offer);
  \<open>ClearTaskInfo\<close> clears the offer-related details, which are the task info, the ports
  and the reference to the offer. \<open>GetOfferId\<close> is the id in the details of the task's
  offer, and the empty string without an offer.
\<close>

record T =
  task_ID :: string
  task_Pod :: api_Pod
  task_Offer :: "ref option"
  task_TaskInfo :: "mesos_TaskInfo option"
  task_State :: StateType
  task_Flags :: "FlagType set"
  task_Ports :: "HostPortMapping list"
  task_podKey :: string

text \<open>Modelled from the spec: \<open>T.Has\<close> of package podtask, membership in the flags of the task.\<close>

definition Has :: "T \<Rightarrow> FlagType \<Rightarrow> bool" where
  "Has t f = (f \<in> task_Flags t)"

text \<open>Modelled from the spec: \<open>T.Set\<close> of package podtask, which adds a flag.\<close>

definition Set_flag :: "T \<Rightarrow> FlagType \<Rightarrow> T" where
  "Set_flag t f = t\<lparr> task_Flags := insert f (task_Flags t) \<rparr>"

text \<open>Modelled from the spec: \<open>T.HasAcceptedOffer\<close> of package podtask.\<close>

definition HasAcceptedOffer :: "T \<Rightarrow> bool" where
  "HasAcceptedOffer t = (task_TaskInfo t \<noteq> None)"




text \<open>
  Modelled from the spec: the pod-task registry of package podtask (section 4.3), "a
  mapping keyed by taskId to task records, with an auxiliary index podKey to taskId",
  with \<open>Register\<close>, \<open>Unregister\<close>, \<open>Get(taskId)\<close> giving the task and its state, and
  \<open>TaskForPod(podKey)\<close>. \<open>Register\<close> takes the result of \<open>createPodTask\<close> and passes an
  error through. A task is a Go pointer; a write through it is a write to the record
  that the registry holds under the task's id (\<open>put_task\<close>).
\<close>

text \<open>Modelled from the spec: \<open>Get(taskId)\<close> of the pod-task registry, the task and its state, and
  no task with the state Unknown for an id that is not registered.\<close>

definition registry_Get :: "(string \<rightharpoonup> T) \<Rightarrow> string \<Rightarrow> T option \<times> StateType" where
  "registry_Get reg taskId =
     (case reg taskId of None \<Rightarrow> (None, StateUnknown) | Some task \<Rightarrow> (Some task, task_State task))"

text \<open>
  The pod wrapper of the scheduling queue: the pod, and the deadline, the delay and the
  break-out channel that the Delay FIFO reads.
\<close>

record Pod =
  q_Pod :: api_Pod
  q_deadline :: "time option"
  q_delay :: "time option"
  q_notify :: "chan option"

text \<open>
  Modelled from the spec: the back-off table of the error handler (section 4.6):
  "delay_n = min(prev*2, maxDuration=60s), starting defaultDuration=1s; entries older
  than maxDuration are GC'd on each call".
\<close>

record backoffEntry =
  be_backoff :: time
  be_lastUpdate :: time

definition defaultDuration :: time where
  "defaultDuration = 1000000000"

definition maxDuration :: time where
  "maxDuration = 60 * 1000000000"

text \<open>Modelled from the spec: \<open>podBackoff.gc\<close>, which drops the entries older than \<open>maxDuration\<close>.\<close>

definition backoff_gc :: "time \<Rightarrow> (string \<rightharpoonup> backoffEntry) \<Rightarrow> (string \<rightharpoonup> backoffEntry)" where
  "backoff_gc now tbl =
     (\<lambda>podID. case tbl podID of
                 None \<Rightarrow> None
               | Some entry \<Rightarrow> if maxDuration < now - be_lastUpdate entry then None else Some entry)"

text \<open>Modelled from the spec: \<open>podBackoff.getBackoff\<close>, the current delay of a pod, doubled for the
  next call up to \<open>maxDuration\<close>.\<close>

definition getBackoff :: "time \<Rightarrow> (string \<rightharpoonup> backoffEntry) \<Rightarrow> string
    \<Rightarrow> time \<times> (string \<rightharpoonup> backoffEntry)" where
  "getBackoff now tbl podID =
     (let duration = (case tbl podID of None \<Rightarrow> defaultDuration | Some entry \<Rightarrow> be_backoff entry)
      in (duration,
          tbl(podID \<mapsto> \<lparr> be_backoff = min (duration * 2) maxDuration, be_lastUpdate = now \<rparr>)))"

text \<open>
  What the scheduler did to its collaborators, in order: the placement function it ran
  for a task, and the calls of the driver.
\<close>

datatype sched_event =
    EvPlacement string
  | EvLaunchTasks string "mesos_TaskInfo option"
  | EvKillTask string

text \<open>
  The state behind \<open>SchedulerInterface\<close>, the queuer and the error handler. \<open>registry\<close> is
  the offer registry; the filters of its listeners read the task registry. \<open>slaves\<close>
  maps a slave id to its host name. \<open>podUpdates\<close> is the event-tagged FIFO of pod
  updates, of a type \<open>'q\<close> left open.
\<close>

record 'q sched =
  taskRegistry :: "string \<rightharpoonup> T"
  podToTask :: "string \<rightharpoonup> string"
  registry :: "(string \<rightharpoonup> T) offerStorage"
  slaves :: "string \<rightharpoonup> string"
  podQueue :: "Pod DelayFIFO"
  podUpdates :: 'q
  backoff :: "string \<rightharpoonup> backoffEntry"
  events :: "sched_event list"

text \<open>
  The collaborators of the plugin that are not among the sources, as parameters:
  \<open>podtask.MakePodKey\<close> for a namespace and a pod name; \<open>cache.MetaNamespaceKeyFunc\<close>;
  \<open>Poll\<close> of the pod-update FIFO; \<open>podtask.New\<close>; the placement function
  (\<open>PodScheduleFunc\<close>), which is given the offer registry, the slave index and the task
  and may acquire and release offers; \<open>T.AcceptOffer\<close>; \<open>Pod.GetUID\<close>; the driver's
  \<open>LaunchTasks\<close> and \<open>KillTask\<close> (None: no error); the API client's \<open>Pods(ns).Get(name)\<close>
  and the environment variables of the services of a namespace;
  \<open>api.Scheme.Convert\<close> to a bound pod; \<open>T.SaveRecoveryInfo\<close> on the annotations;
  and \<open>yaml.Marshal\<close>.
\<close>

record 'q sched_env =
  MakePodKey :: "string \<Rightarrow> string \<Rightarrow> error + string"
  MetaNamespaceKeyFunc :: "api_Pod \<Rightarrow> error + string"
  Poll :: "'q \<Rightarrow> string \<Rightarrow> EventType \<Rightarrow> bool \<times> 'q"
  createPodTask :: "api_Pod \<Rightarrow> error + T"
  algorithm :: "(string \<rightharpoonup> T) offerStorage \<Rightarrow> (string \<rightharpoonup> string) \<Rightarrow> T
                  \<Rightarrow> (error + ref) \<times> (string \<rightharpoonup> T) offerStorage"
  AcceptOffer :: "T \<Rightarrow> mesos_Offer option \<Rightarrow> bool"
  GetUID :: "Pod \<Rightarrow> string"
  driver_LaunchTasks :: "string \<Rightarrow> mesos_TaskInfo option \<Rightarrow> error option"
  driver_KillTask :: "string \<Rightarrow> error option"
  Pods_Get :: "string \<Rightarrow> string \<Rightarrow> error + api_Pod"
  getServiceEnvironmentVariables :: "string \<Rightarrow> error + EnvVar list"
  Scheme_Convert :: "api_Pod \<Rightarrow> error + BoundPod"
  SaveRecoveryInfo :: "T \<Rightarrow> (string \<rightharpoonup> string) \<Rightarrow> (string \<rightharpoonup> string)"
  yaml_Marshal :: "BoundPod \<Rightarrow> error + string"
  annotation_BindingHostKey :: string

definition taskForPod :: "'q sched \<Rightarrow> string \<Rightarrow> string option" where
  "taskForPod k podID = podToTask k podID"

definition getTask :: "'q sched \<Rightarrow> string \<Rightarrow> T option \<times> StateType" where
  "getTask k taskId = registry_Get (taskRegistry k) taskId"

definition put_task :: "T \<Rightarrow> 'q sched \<Rightarrow> 'q sched" where
  "put_task t k = k\<lparr> taskRegistry := (taskRegistry k)(task_ID t \<mapsto> t) \<rparr>"












text \<open>The closure that \<open>handleSchedulingError\<close> hands to \<open>Listen\<close>; it reads the task
  registry when the registry of offers calls it.\<close>

definition breakout_filter :: "'q sched_env \<Rightarrow> string \<Rightarrow> (string \<rightharpoonup> T) Filter" where
  "breakout_filter env taskId =
     (\<lambda>reg offer.
        case registry_Get reg taskId of
          (Some task, StatePending) \<Rightarrow> \<not> Has task Launched \<and> AcceptOffer env task offer
        | other \<Rightarrow> True)"

definition requeue :: "'q sched_env \<Rightarrow> 'q sched \<Rightarrow> Pod \<Rightarrow> 'q sched" where
  "requeue env k pod = k\<lparr> podQueue := fifo_Add (GetUID env pod) pod KeepExisting (podQueue k) \<rparr>"


definition handleSchedulingError :: "'q sched_env \<Rightarrow> time \<Rightarrow> 'q sched \<Rightarrow> api_Pod \<Rightarrow> error
    \<Rightarrow> 'q sched" where
  "handleSchedulingError env now k pod schedulingErr =
     (if schedulingErr = noSuchPodErr then k
      else
        (case MakePodKey env (pod_Namespace pod) (pod_Name pod) of
           Inl err \<Rightarrow> k
         | Inr podKey \<Rightarrow>
             (let k0 = k\<lparr> backoff := backoff_gc now (backoff k) \<rparr> in
              case taskForPod k0 podKey of
                None \<Rightarrow> k0
              | Some taskId \<Rightarrow>
                  (case getTask k0 taskId of
                     (Some task, StatePending) \<Rightarrow>
                       if Has task Launched then k0
                       else
                         (case (if schedulingErr = noSuitableOffersErr
                                then Listen now (registry k0) podKey (Some (breakout_filter env taskId))
                                else (None, registry k0)) of
                            (breakoutEarly, reg1) \<Rightarrow>
                              (case getBackoff now (backoff k0) podKey of
                                 (delay, tbl) \<Rightarrow>
                                   requeue env (k0\<lparr> registry := reg1, backoff := tbl \<rparr>)
                                     \<lparr> q_Pod = pod, q_deadline = None, q_delay = Some delay,
                                       q_notify = breakoutEarly \<rparr>))
                   | other \<Rightarrow> k0))))"


subsection \<open>The scheduler of the examples\<close>

definition ex_pod :: api_Pod where
  "ex_pod = \<lparr> pod_Name = ''p1'', pod_Namespace = ''default'', pod_UID = ''u1'', pod_Host = [] \<rparr>"

definition ex_task :: T where
  "ex_task = \<lparr> task_ID = ''t1'', task_Pod = ex_pod, task_Offer = Some 0,
               task_TaskInfo = Some \<lparr> ti_TaskId = Some ''t1'', ti_SlaveId = Some ''s1'',
                                      ti_Data = None \<rparr>,
               task_State = StatePending, task_Flags = {}, task_Ports = [],
               task_podKey = ''default/p1'' \<rparr>"

text \<open>
  A scheduler environment for the examples: placement takes the first offer of the
  registry if it can acquire it, the driver's \<open>LaunchTasks\<close> returns \<open>launched\<close>, and
  every other call succeeds.
\<close>

definition ex_sched_env :: "error option \<Rightarrow> unit sched_env" where
  "ex_sched_env launched =
     \<lparr> MakePodKey = (\<lambda>ns n. if ns = [] \<or> n = [] then Inl (External ''invalid key'')
                              else Inr (ns @ ''/'' @ n)),
       MetaNamespaceKeyFunc = (\<lambda>p. Inr (pod_Namespace p @ ''/'' @ pod_Name p)),
       Poll = (\<lambda>q i ev. (False, q)),
       createPodTask = (\<lambda>p. Inr \<lparr> task_ID = ''t1'', task_Pod = p, task_Offer = None,
                                   task_TaskInfo = None, task_State = StatePending,
                                   task_Flags = {}, task_Ports = [],
                                   task_podKey = pod_Namespace p @ ''/'' @ pod_Name p \<rparr>),
       algorithm = (\<lambda>reg sl t. case offers reg of
                                  [] \<Rightarrow> (Inl noSuitableOffersErr, reg)
                                | e # es \<Rightarrow> (case obj_Acquire reg (snd e) of
                                      (won, reg1) \<Rightarrow> if won then (Inr (snd e), reg1)
                                                     else (Inl noSuitableOffersErr, reg1))),
       AcceptOffer = (\<lambda>t offer. False),
       GetUID = (\<lambda>p. pod_Namespace (q_Pod p) @ ''/'' @ pod_Name (q_Pod p)),
       driver_LaunchTasks = (\<lambda>offerId ti. launched),
       driver_KillTask = (\<lambda>taskId. None),
       Pods_Get = (\<lambda>ns n. Inr (ex_pod\<lparr> pod_Namespace := ns, pod_Name := n \<rparr>)),
       getServiceEnvironmentVariables = (\<lambda>ns. Inr []),
       Scheme_Convert = (\<lambda>p. Inr \<lparr> bp_Name = pod_Name p, bp_Namespace = pod_Namespace p,
                                    bp_SelfLink = [], bp_Annotations = Map.empty,
                                    bp_Containers = [] \<rparr>),
       SaveRecoveryInfo = (\<lambda>t a. a),
       yaml_Marshal = (\<lambda>bp. Inr (bp_Name bp)),
       annotation_BindingHostKey = ''host'' \<rparr>"

definition ex_offers :: "(string \<rightharpoonup> T) offerStorage" where
  "ex_offers = Add 0 (CreateRegistry 10 5 0) [ex_offer]"

text \<open>The scheduler after \<open>Schedule\<close> has placed the pod \<open>p1\<close> on the offer \<open>o1\<close>.\<close>

definition ex_sched :: "unit sched" where
  "ex_sched = \<lparr> taskRegistry = [''t1'' \<mapsto> ex_task], podToTask = [''default/p1'' \<mapsto> ''t1''],
                registry = snd (obj_Acquire ex_offers 0), slaves = [''s1'' \<mapsto> ''h1''],
                podQueue = [], podUpdates = (), backoff = Map.empty, events = [] \<rparr>"


subsection \<open>More schedulers for the examples\<close>

definition ex_env_deleted :: "unit sched_env" where
  "ex_env_deleted = (ex_sched_env None)\<lparr> Poll := (\<lambda>q i ev. (True, q)) \<rparr>"

definition ex_sched_empty :: "unit sched" where
  "ex_sched_empty = ex_sched\<lparr> taskRegistry := Map.empty, podToTask := Map.empty \<rparr>"

definition ex_qpod :: Pod where
  "ex_qpod = \<lparr> q_Pod = ex_pod, q_deadline = None, q_delay = None, q_notify = None \<rparr>"

definition ex_sched_launched :: "unit sched" where
  "ex_sched_launched = put_task (Set_flag ex_task Launched) ex_sched"

section \<open>Verified properties\<close>

subsection \<open>The delay FIFO\<close>

lemma map_of_fifo_Delete:
  "map_of (fifo_Delete k q) k' = (if k' = k then None else map_of q k')"
  by (induction q) (auto simp: fifo_Delete_def)

lemma map_of_fifo_Offer_Replace:
  "map_of (snd (fifo_Offer k x ReplaceExisting q)) k' = (if k' = k then Some x else map_of q k')"
  by (auto simp: fifo_Offer_def map_of_fifo_Delete map_add_def split: option.splits)

subsection \<open>Acquisition of offers\<close>

lemma Acquire_flag:
  "acquired p \<in> {Some 0, Some 1} \<Longrightarrow> acquired (snd (Acquire p)) \<in> {Some 0, Some 1}"
  by (cases p) (auto simp: CompareAndSwapInt32_def)

lemma Release_flag:
  "acquired p \<in> {Some 0, Some 1} \<Longrightarrow> acquired (Release p) \<in> {Some 0, Some 1}"
  by (cases p) (auto simp: CompareAndSwapInt32_def)

lemma run_ops_flag:
  "acquired p \<in> {Some 0, Some 1} \<Longrightarrow> acquired (snd (run_ops p ops)) \<in> {Some 0, Some 1}"
proof (induction ops arbitrary: p)
  case Nil
  then show ?case by simp
next
  case (Cons op ops)
  show ?case
  proof (cases op)
    case OpAcquire
    have "acquired (snd (run_ops (snd (Acquire p)) ops)) \<in> {Some 0, Some 1}"
      using Cons.IH Acquire_flag [OF Cons.prems] by blast
    then show ?thesis using OpAcquire by (auto split: prod.splits)
  next
    case OpRelease
    have "acquired (snd (run_ops (Release p) ops)) \<in> {Some 0, Some 1}"
      using Cons.IH Release_flag [OF Cons.prems] by blast
    then show ?thesis using OpRelease by simp
  qed
qed

lemma acquire_seq_from_1:
  "fst (run_ops (liveOffer d e 1) (replicate n OpAcquire)) = replicate n False
   \<and> snd (run_ops (liveOffer d e 1) (replicate n OpAcquire)) = liveOffer d e 1"
  by (induction n) (auto simp: CompareAndSwapInt32_def split: prod.splits)

lemma acquire_seq_from_0:
  "fst (run_ops (liveOffer d e 0) (replicate (Suc n) OpAcquire)) = True # replicate n False"
  using acquire_seq_from_1 [of d e n]
  by (auto simp: CompareAndSwapInt32_def split: prod.splits)

text \<open>
  Claim C6. The offer object that \<open>Add\<close> creates is live with flag 0, and every
  history of Acquire and Release calls on an object whose flag is 0 or 1 leaves it 0
  or 1. \<open>Acquire\<close> on a live offer returns true exactly when the flag was 0 and then
  sets it to 1; of \<open>n > 0\<close> Acquire calls in a row on a free offer exactly one returns
  true, and none does on a claimed offer. \<open>Release\<close> resets 1 to 0 and leaves 0. On an
  expired lingering offer \<open>Acquire\<close> returns false, \<open>Release\<close> changes nothing and
  \<open>Details\<close> is nil, while \<open>Details\<close> of a live offer is its payload.
\<close>

theorem offer_acquisition:
  "objs (Add now s [offer]) (next_ref s) = liveOffer offer (now + TTL s) 0
   \<and> (acquired p \<in> {Some 0, Some 1} \<longrightarrow> acquired (snd (run_ops p ops)) \<in> {Some 0, Some 1})
   \<and> Acquire (liveOffer d e a) = (a = 0, liveOffer d e (if a = 0 then 1 else a))
   \<and> (0 < n \<longrightarrow>
        length (filter (\<lambda>b. b) (fst (run_ops (liveOffer d e 0) (replicate n OpAcquire)))) = 1)
   \<and> length (filter (\<lambda>b. b) (fst (run_ops (liveOffer d e 1) (replicate n OpAcquire)))) = 0
   \<and> Release (liveOffer d e 1) = liveOffer d e 0
   \<and> Release (liveOffer d e 0) = liveOffer d e 0
   \<and> Acquire (expiredOffer i h dl) = (False, expiredOffer i h dl)
   \<and> Release (expiredOffer i h dl) = expiredOffer i h dl
   \<and> Details (expiredOffer i h dl) = None
   \<and> Details (liveOffer d e a) = Some d"
proof -
  have one: "0 < n \<Longrightarrow>
      length (filter (\<lambda>b. b) (fst (run_ops (liveOffer d e 0) (replicate n OpAcquire)))) = 1"
  proof -
    assume "0 < n"
    then obtain m where n: "n = Suc m" by (cases n) auto
    show ?thesis unfolding n acquire_seq_from_0 by simp
  qed
  have none: "length (filter (\<lambda>b. b) (fst (run_ops (liveOffer d e 1) (replicate n OpAcquire)))) = 0"
    using acquire_seq_from_1 [of d e n] by simp
  show ?thesis
    using one none run_ops_flag [of p ops]
    by (simp add: CompareAndSwapInt32_def new_obj_def)
qed

theorem offer_acquisition_witness:
  "acquired (liveOffer \<lparr> offer_Id = ''o1'', offer_Hostname = ''h1'', offer_SlaveId = ''s1'' \<rparr> 5 0)
     \<in> {Some 0, Some 1}
   \<and> acquired (snd (run_ops
        (liveOffer \<lparr> offer_Id = ''o1'', offer_Hostname = ''h1'', offer_SlaveId = ''s1'' \<rparr> 5 0)
        [OpAcquire, OpAcquire, OpRelease, OpAcquire])) \<in> {Some 0, Some 1}
   \<and> (0::nat) < 3
   \<and> length (filter (\<lambda>b. b) (fst (run_ops
        (liveOffer \<lparr> offer_Id = ''o1'', offer_Hostname = ''h1'', offer_SlaveId = ''s1'' \<rparr> 5 0)
        (replicate 3 OpAcquire)))) = 1"
  using offer_acquisition [of 0 "CreateRegistry 10 0 0"
      "\<lparr> offer_Id = ''o1'', offer_Hostname = ''h1'', offer_SlaveId = ''s1'' \<rparr>"
      "liveOffer \<lparr> offer_Id = ''o1'', offer_Hostname = ''h1'', offer_SlaveId = ''s1'' \<rparr> 5 0"
      "[OpAcquire, OpAcquire, OpRelease, OpAcquire]"
      "\<lparr> offer_Id = ''o1'', offer_Hostname = ''h1'', offer_SlaveId = ''s1'' \<rparr>" 5 0 3]
  by (simp add: CompareAndSwapInt32_def numeral_3_eq_3)

subsection \<open>Registering a listener\<close>

text \<open>
  Claim C10. \<open>Listen\<close> with a nil filter returns the nil channel and leaves the registry
  unchanged, so no listener is registered. With a filter it returns a channel that did
  not exist before (its index is past every channel of the old state) and is open, and
  the listeners queue is the old one after \<open>Offer(listen, ReplaceExisting)\<close>, which
  holds the new listener under its id; nothing else changes.
\<close>

theorem Listen_registers:
  "Listen now s i None = (None, s)
   \<and> (\<exists>ch s'. Listen now s i (Some f) = (Some ch, s')
        \<and> ch = length (chans s)
        \<and> chans s' = chans s @ [ChanOpen]
        \<and> chans s' ! ch = ChanOpen
        \<and> listeners s' =
            snd (fifo_Offer i \<lparr> l_id = i, accepts = f, notify = ch, age = 0,
                   l_deadline = now + ListenerDelay s, sawVersion = 0 \<rparr>
                 ReplaceExisting (listeners s))
        \<and> map_of (listeners s') i =
            Some \<lparr> l_id = i, accepts = f, notify = ch, age = 0,
                   l_deadline = now + ListenerDelay s, sawVersion = 0 \<rparr>
        \<and> s' = s\<lparr> chans := chans s', listeners := listeners s' \<rparr>)"
  by (simp add: Listen_def make_chan_def map_of_fifo_Offer_Replace)

subsection \<open>Listener notification\<close>

lemma scan_offers_iff:
  "scan_offers now w s l ids = list_ex (offer_matches now w s l) ids"
  by (induction ids) (auto simp: offer_matches_def split: option.splits)

lemma scan_offers_sawVersion [simp]:
  "scan_offers now w s (l\<lparr> sawVersion := v \<rparr>) ids = scan_offers now w s l ids"
  by (induction ids) (auto split: option.splits)

lemma fifo_earliest_mem: "fifo_earliest dl b q \<in> set (b # q)"
  by (induction q arbitrary: b) (auto split: if_splits)

lemma fifo_Pop_mem:
  "fifo_Pop dl q = Some (x, r) \<Longrightarrow> \<exists>k. (k, x) \<in> set q \<and> r = fifo_Delete k q"
  using fifo_earliest_mem [of dl "hd q" "tl q"]
  by (cases q) (auto simp: fifo_Pop_def Let_def intro: exI [where x = "fst (fifo_earliest dl (hd q) (tl q))"])

lemma listeners_ok_alt:
  "listeners_ok s \<longleftrightarrow>
     distinct (map fst (listeners s))
     \<and> distinct (map (\<lambda>e. notify (snd e)) (listeners s))
     \<and> (\<forall>e \<in> set (listeners s). l_id (snd e) = fst e \<and> notify (snd e) < length (chans s)
            \<and> chans s ! notify (snd e) = ChanOpen)"
  by (simp add: listeners_ok_def list_all_iff)

lemma ok_fifo_Delete:
  "listeners_ok s \<Longrightarrow> listeners_ok (s\<lparr> listeners := fifo_Delete k (listeners s) \<rparr>)"
  by (auto simp: listeners_ok_alt fifo_Delete_def distinct_map_filter)

lemma popped_facts:
  assumes "listeners_ok s" and "(k, x) \<in> set (listeners s)"
  shows "l_id x = k" and "notify x < length (chans s)" and "chans s ! notify x = ChanOpen"
    and "map_of (fifo_Delete k (listeners s)) k = None"
    and "notify x \<notin> (\<lambda>e. notify (snd e)) ` set (fifo_Delete k (listeners s))"
proof -
  show "l_id x = k" "notify x < length (chans s)" "chans s ! notify x = ChanOpen"
    using assms by (auto simp: listeners_ok_alt)
  show "map_of (fifo_Delete k (listeners s)) k = None"
    by (simp add: map_of_fifo_Delete)
  have inj: "inj_on (\<lambda>e. notify (snd e)) (set (listeners s))"
    using assms(1) by (simp add: listeners_ok_alt distinct_map)
  show "notify x \<notin> (\<lambda>e. notify (snd e)) ` set (fifo_Delete k (listeners s))"
  proof
    assume "notify x \<in> (\<lambda>e. notify (snd e)) ` set (fifo_Delete k (listeners s))"
    then obtain e where e: "e \<in> set (listeners s)" "fst e \<noteq> k" "notify (snd e) = notify x"
      by (auto simp: fifo_Delete_def)
    then have "e = (k, x)"
      using inj_onD [OF inj, of e "(k, x)"] assms(2) by simp
    then show False using e by simp
  qed
qed

lemma ok_append:
  assumes "listeners_ok s" and "map_of (listeners s) k = None"
    and "notify x \<notin> (\<lambda>e. notify (snd e)) ` set (listeners s)"
    and "l_id x = k" and "notify x < length (chans s)" and "chans s ! notify x = ChanOpen"
  shows "listeners_ok (s\<lparr> listeners := listeners s @ [(k, x)] \<rparr>)"
  using assms by (auto simp: listeners_ok_alt map_of_eq_None_iff)

lemma ok_close:
  assumes "listeners_ok s" and "c \<notin> (\<lambda>e. notify (snd e)) ` set (listeners s)"
  shows "listeners_ok (s\<lparr> chans := (chans s)[c := ChanClosed] \<rparr>)"
  using assms by (force simp: listeners_ok_alt nth_list_update image_iff)

lemma ok_make_chan:
  assumes "listeners_ok s"
  shows "listeners_ok (s\<lparr> chans := chans s @ [ChanOpen] \<rparr>)"
    and "length (chans s) \<notin> (\<lambda>e. notify (snd e)) ` set (listeners s)"
  using assms by (auto simp: listeners_ok_alt nth_append)


lemma listeners_ok_cong:
  "listeners s' = listeners s \<Longrightarrow> chans s' = chans s \<Longrightarrow> listeners_ok s' = listeners_ok s"
  by (simp add: listeners_ok_def)

lemma requeue_after_pop:
  assumes "map_of (listeners s) (l_id l) = None"
  shows "requeue_listener now s l =
           s\<lparr> listeners := listeners s @ [(l_id l, l\<lparr> l_deadline := now + ListenerDelay s \<rparr>)] \<rparr>"
  using assms by (simp add: requeue_listener_def fifo_Offer_def Let_def)

lemma notifyListener_ok:
  assumes ok: "listeners_ok s" and mem: "(k, l) \<in> set (listeners s)"
  shows "\<exists>s'. notifyListener now w (s\<lparr> listeners := fifo_Delete k (listeners s) \<rparr>) ids l = Inr s'
             \<and> listeners_ok s'"
proof -
  let ?s0 = "s\<lparr> listeners := fifo_Delete k (listeners s) \<rparr>"
  note pf = popped_facts [OF ok mem]
  have ok0: "listeners_ok ?s0" by (rule ok_fifo_Delete [OF ok])
  have re: "listeners_ok (requeue_listener now ?s0 l')"
    if "l_id l' = l_id l" "notify l' = notify l" for l'
  proof -
    have "listeners_ok (?s0\<lparr> listeners := listeners ?s0 @
             [(k, l'\<lparr> l_deadline := now + ListenerDelay ?s0 \<rparr>)] \<rparr>)"
      by (rule ok_append [OF ok0]) (use pf that in simp_all)
    then show ?thesis
      using pf that by (simp add: requeue_after_pop)
  qed
  have cl: "listeners_ok (?s0\<lparr> chans := (chans ?s0)[notify l := ChanClosed] \<rparr>)"
    by (rule ok_close [OF ok0]) (use pf in simp)
  obtain offerIds version where ids: "ids = (offerIds, version)" by (cases ids)
  show ?thesis
    using re [of l] re [of "l\<lparr> sawVersion := version, age := age l + 1 \<rparr>"] cl ok0 pf(2,3)
    by (auto simp: notifyListener_def ids close_chan_def Let_def)
qed

lemma notifyListeners_ok:
  assumes "listeners_ok s" and "notifyListeners now w s ids = Some r"
  shows "\<exists>s'. r = Inr s' \<and> listeners_ok s'"
proof -
  from assms(2) obtain l q where pop: "fifo_Pop l_deadline (listeners s) = Some (l, q)"
    and r: "r = notifyListener now w (s\<lparr> listeners := q \<rparr>) ids l"
    by (auto simp: notifyListeners_def split: option.splits)
  from fifo_Pop_mem [OF pop] obtain k where "(k, l) \<in> set (listeners s)" "q = fifo_Delete k (listeners s)"
    by blast
  then show ?thesis
    using notifyListener_ok [OF assms(1), of k l now w ids] r by auto
qed

lemma Listen_ok:
  assumes "listeners_ok s"
  shows "listeners_ok (snd (Listen now s i f))"
proof (cases f)
  case None
  then show ?thesis using assms by (simp add: Listen_def)
next
  case (Some flt)
  let ?s1 = "s\<lparr> chans := chans s @ [ChanOpen] \<rparr>"
  let ?l = "\<lparr> l_id = i, accepts = flt, notify = length (chans s), age = 0,
              l_deadline = now + ListenerDelay s, sawVersion = 0 \<rparr>"
  have ok1: "listeners_ok ?s1" by (rule ok_make_chan(1) [OF assms])
  have fresh: "length (chans s) \<notin> (\<lambda>e. notify (snd e)) ` set (listeners s)"
    by (rule ok_make_chan(2) [OF assms])
  have ok2: "listeners_ok (?s1\<lparr> listeners := fifo_Delete i (listeners ?s1) \<rparr>)"
    by (rule ok_fifo_Delete [OF ok1])
  have fresh2: "length (chans s) \<notin> (\<lambda>e. notify (snd e)) ` set (fifo_Delete i (listeners s))"
    using fresh by (auto simp: fifo_Delete_def)
  have a: "listeners_ok (?s1\<lparr> listeners := listeners s @ [(i, ?l)] \<rparr>)"
    if "map_of (listeners s) i = None"
    using ok_append [OF ok1, of i ?l] that fresh by simp
  have b: "listeners_ok (?s1\<lparr> listeners := fifo_Delete i (listeners s) @ [(i, ?l)] \<rparr>)"
    using ok_append [OF ok2, of i ?l] fresh2 by (simp add: map_of_fifo_Delete)
  show ?thesis
    using a b Some by (auto simp: Listen_def make_chan_def fifo_Offer_def Let_def split: option.splits)
qed

lemma new_obj_fields [simp]:
  "listeners (snd (new_obj p s)) = listeners s" "chans (snd (new_obj p s)) = chans s"
  by (simp_all add: new_obj_def)

lemma Add_fields [simp]:
  "listeners (Add now s os) = listeners s \<and> chans (Add now s os) = chans s"
  by (induction os arbitrary: s) (auto simp: new_obj_def)

lemma obj_Acquire_fields [simp]:
  "listeners (snd (obj_Acquire s r)) = listeners s" "chans (snd (obj_Acquire s r)) = chans s"
  by (simp_all add: obj_Acquire_def split: prod.splits)

lemma expireOffer_fields [simp]:
  "listeners (expireOffer now s r) = listeners s" "chans (expireOffer now s r) = chans s"
  by (simp_all add: expireOffer_def new_obj_def Let_def split: option.splits)

lemma deferredDecline_fields [simp]:
  "listeners (deferredDecline s i r) = listeners s" "chans (deferredDecline s i r) = chans s"
  by (auto simp: deferredDecline_def obj_Acquire_def DeclineOffer_def split: prod.splits)

lemma Delete_fields [simp]:
  "listeners (Delete now s i) = listeners s" "chans (Delete now s i) = chans s"
  by (simp_all add: Delete_def DeclineOffer_def split: option.splits prod.splits)
    (metis obj_Acquire_fields snd_conv)+

lemma invalidateAll_fields [simp]:
  "listeners (invalidateAll now s rs) = listeners s \<and> chans (invalidateAll now s rs) = chans s"
  by (induction rs arbitrary: s) (auto simp: obj_Acquire_def split: prod.splits)

lemma Invalidate_fields [simp]:
  "listeners (Invalidate now s i) = listeners s" "chans (Invalidate now s i) = chans s"
  by (simp_all add: Invalidate_def invalidateOne_def obj_Acquire_def split: option.splits prod.splits)

lemma fire_timers_fields [simp]:
  "listeners (fire_timers now ts s) = listeners s \<and> chans (fire_timers now ts s) = chans s"
  by (induction ts arbitrary: s) auto

lemma registry_step_ok:
  assumes "listeners_ok s"
  shows "\<exists>s'. registry_step s c = Inr s' \<and> listeners_ok s'"
proof (cases c)
  case (CallListen now i f)
  then show ?thesis using Listen_ok [OF assms] by simp
next
  case (CallNotify now w ids version)
  then show ?thesis
    using notifyListeners_ok [OF assms, of now w "(ids, version)"] assms
    by (auto split: option.splits)
qed (use assms in \<open>simp_all add: listeners_ok_def\<close>)

lemma registry_run_ok:
  "listeners_ok s \<Longrightarrow> \<exists>s'. registry_run s cs = Inr s' \<and> listeners_ok s'"
proof (induction cs arbitrary: s)
  case Nil
  then show ?case by simp
next
  case (Cons c cs)
  from registry_step_ok [OF Cons.prems, of c] obtain s1 where
    "registry_step s c = Inr s1" "listeners_ok s1" by blast
  then show ?case using Cons.IH [of s1] by simp
qed


lemma scan_offers_listeners [simp]:
  "scan_offers now w (s\<lparr> listeners := q \<rparr>) l ids = scan_offers now w s l ids"
  by (induction ids) (auto simp: Get_def split: option.splits)

text \<open>
  Claim C7. Let \<open>listener\<close> be the listener that a sweep pops from a well-formed
  listeners queue, \<open>q\<close> the rest of the queue, and \<open>(ids, version)\<close> the cached offer ids.
  If the listener's \<open>sawVersion\<close> is \<open>version\<close>, it is queued again with its age unchanged
  (only its deadline is renewed). Otherwise, if some cached id names an offer of the
  registry that has not expired and that the filter accepts, the notify channel, open
  until then, is closed and the listener is not queued again. If no id matches, the age
  grows by one and the listener is queued again exactly when the new age is below 12
  (as signed numbers); else it is dropped and its channel stays open. Every history
  of registry calls from a well-formed state runs without a panic and ends in a
  well-formed state, and the empty registry is well formed: since closing a closed
  channel panics, no channel is ever closed twice.
\<close>

theorem notifyListeners_sweep:
  assumes ok: "listeners_ok s" and pop: "fifo_Pop l_deadline (listeners s) = Some (listener, q)"
  shows
   "(sawVersion listener = version \<longrightarrow>
       notifyListeners now w s (ids, version) =
         Some (Inr (s\<lparr> listeners := q @ [(l_id listener,
                        listener\<lparr> l_deadline := now + ListenerDelay s \<rparr>)] \<rparr>)))
    \<and> (sawVersion listener \<noteq> version \<and> list_ex (offer_matches now w s listener) ids \<longrightarrow>
         chans s ! notify listener = ChanOpen
         \<and> notifyListeners now w s (ids, version) =
             Some (Inr (s\<lparr> listeners := q, chans := (chans s)[notify listener := ChanClosed] \<rparr>))
         \<and> map_of q (l_id listener) = None)
    \<and> (sawVersion listener \<noteq> version \<and> \<not> list_ex (offer_matches now w s listener) ids \<longrightarrow>
         notifyListeners now w s (ids, version) =
           Some (Inr (if age listener + 1 <s 12
                      then s\<lparr> listeners := q @ [(l_id listener,
                             listener\<lparr> sawVersion := version, age := age listener + 1,
                                       l_deadline := now + ListenerDelay s \<rparr>)] \<rparr>
                      else s\<lparr> listeners := q \<rparr>)))
    \<and> chans s ! notify listener = ChanOpen
    \<and> (\<exists>s'. registry_run s calls = Inr s' \<and> listeners_ok s')
    \<and> listeners_ok (CreateRegistry ttl linger delay :: 'w offerStorage)"
proof -
  from fifo_Pop_mem [OF pop] obtain k where
    mem: "(k, listener) \<in> set (listeners s)" and q: "q = fifo_Delete k (listeners s)"
    by blast
  note pf = popped_facts [OF ok mem]
  have none: "map_of q (l_id listener) = None" using pf(1,4) q by simp
  have re: "requeue_listener now (s\<lparr> listeners := q \<rparr>) l' =
              s\<lparr> listeners := q @ [(l_id listener, l'\<lparr> l_deadline := now + ListenerDelay s \<rparr>)] \<rparr>"
    if "l_id l' = l_id listener" for l'
    using requeue_after_pop [of "s\<lparr> listeners := q \<rparr>" l' now] none that by simp
  have sc: "scan_offers now w s listener ids = list_ex (offer_matches now w s listener) ids"
    by (rule scan_offers_iff)
  have a: "sawVersion listener = version \<Longrightarrow>
       notifyListeners now w s (ids, version) =
         Some (Inr (s\<lparr> listeners := q @ [(l_id listener,
                        listener\<lparr> l_deadline := now + ListenerDelay s \<rparr>)] \<rparr>))"
    using re [of listener] by (simp add: notifyListeners_def pop notifyListener_def)
  have b: "sawVersion listener \<noteq> version \<Longrightarrow> list_ex (offer_matches now w s listener) ids \<Longrightarrow>
       notifyListeners now w s (ids, version) =
             Some (Inr (s\<lparr> listeners := q, chans := (chans s)[notify listener := ChanClosed] \<rparr>))"
    using pf(2,3) sc by (simp add: notifyListeners_def pop notifyListener_def close_chan_def)
  have c: "sawVersion listener \<noteq> version \<Longrightarrow> \<not> list_ex (offer_matches now w s listener) ids \<Longrightarrow>
         notifyListeners now w s (ids, version) =
           Some (Inr (if age listener + 1 <s 12
                      then s\<lparr> listeners := q @ [(l_id listener,
                             listener\<lparr> sawVersion := version, age := age listener + 1,
                                       l_deadline := now + ListenerDelay s \<rparr>)] \<rparr>
                      else s\<lparr> listeners := q \<rparr>))"
    using sc re [of "listener\<lparr> sawVersion := version, age := age listener + 1 \<rparr>"]
    by (simp add: notifyListeners_def pop notifyListener_def offerListenerMaxAge_def)
  have init: "listeners_ok (CreateRegistry ttl linger delay :: 'w offerStorage)"
    by (simp add: listeners_ok_def CreateRegistry_def)
  show ?thesis
    using a b c none pf(3) registry_run_ok [OF ok, of calls] init by blast
qed

lemma ex_registry_eq:
  "ex_registry = \<lparr> TTL = 10, LingerTTL = 5, ListenerDelay = 0,
       objs = (\<lambda>r. expiredOffer [] [] 0)(0 := liveOffer ex_offer 10 0), next_ref = 1,
       offers = [(''o1'', 0)], delayed = [0], listeners = [(''pod1'', ex_listener)],
       chans = [ChanOpen], declined = [], timers = [] \<rparr>"
  by (simp add: ex_registry_def Listen_def make_chan_def fifo_Offer_def CreateRegistry_def
      new_obj_def ex_offer_def ex_listener_def)

lemma ex_facts:
  "listeners_ok ex_registry"
  "fifo_Pop l_deadline (listeners ex_registry) = Some (ex_listener, [])"
  "offer_matches 1 () ex_registry ex_listener ''o1''"
  "\<not> offer_matches 11 () ex_registry ex_listener ''o1''"
  by (simp_all add: ex_registry_eq listeners_ok_def fifo_Pop_def fifo_Delete_def
        offer_matches_def Get_def) (simp_all add: ex_listener_def)

lemma one_sless_max: "(1::64 word) <s 12"
  by (simp add: word_sless_alt)

lemma ex_fields:
  "sawVersion ex_listener = 0" "l_id ex_listener = ''pod1''" "notify ex_listener = 0"
  "age ex_listener = 0" "ListenerDelay ex_registry = 0" "chans ex_registry = [ChanOpen]"
  by (simp_all add: ex_registry_eq) (simp_all add: ex_listener_def)

theorem notifyListeners_sweep_witness:
  "listeners_ok ex_registry
   \<and> fifo_Pop l_deadline (listeners ex_registry) = Some (ex_listener, [])
   \<and> sawVersion ex_listener = 0
   \<and> notifyListeners 1 () ex_registry ([''o1''], 0) =
       Some (Inr (ex_registry\<lparr> listeners := [(''pod1'', ex_listener\<lparr> l_deadline := 1 \<rparr>)] \<rparr>))
   \<and> sawVersion ex_listener \<noteq> 1
   \<and> list_ex (offer_matches 1 () ex_registry ex_listener) [''o1'']
   \<and> notifyListeners 1 () ex_registry ([''o1''], 1) =
       Some (Inr (ex_registry\<lparr> listeners := [], chans := [ChanClosed] \<rparr>))
   \<and> \<not> list_ex (offer_matches 11 () ex_registry ex_listener) [''o1'']
   \<and> notifyListeners 11 () ex_registry ([''o1''], 1) =
       Some (Inr (ex_registry\<lparr> listeners :=
          [(''pod1'', ex_listener\<lparr> sawVersion := 1, age := 1, l_deadline := 11 \<rparr>)] \<rparr>))"
  using notifyListeners_sweep [OF ex_facts(1) ex_facts(2), of 0 1 "()" "[''o1'']" "[]" 10 5 0]
    notifyListeners_sweep [OF ex_facts(1) ex_facts(2), of 1 1 "()" "[''o1'']" "[]" 10 5 0]
    notifyListeners_sweep [OF ex_facts(1) ex_facts(2), of 1 11 "()" "[''o1'']" "[]" 10 5 0]
    ex_facts
  by (auto simp add: ex_fields one_sless_max)

subsection \<open>Deleting an offer\<close>









subsection \<open>The executor\<close>

text \<open>
  Claim C9. For every message the guard of the task-lost branch of \<open>FrameworkMessage\<close> is
  false: \<open>HasPrefix "task-lost:" message\<close> needs the message to be a prefix of a string of
  10 bytes, so it is at most 10 bytes long. Hence \<open>FrameworkMessage\<close> never calls
  \<open>reportLostTask\<close>: it leaves the executor as it was.
\<close>

theorem FrameworkMessage_never_reports_lost:
  "\<not> (HasPrefix ''task-lost:'' msg \<and> 10 < length msg)
   \<and> length ''task-lost:'' = 10
   \<and> FrameworkMessage k msg = k"
  by (auto simp: FrameworkMessage_def HasPrefix_def)

lemma posts_sendStatus [simp]: "posts (sendStatus k st) = posts k"
  by (simp add: sendStatus_def)

lemma posts_send_pods [simp]: "posts (send_pods k) = posts k"
  by (simp add: send_pods_def)

lemma posts_removePodTask [simp]: "posts (removePodTask k tid reason st) = posts k"
  by (simp add: removePodTask_def Let_def split: option.splits)

lemma posts_launchTask:
  "posts (launchTask env k taskId pod) =
     posts k @ [\<lparr> b_Namespace = bp_Namespace pod, b_PodID = bp_Name pod,
                  b_Host = (case bp_Annotations pod (BindingHostKey env) of
                              None \<Rightarrow> [] | Some h \<Rightarrow> h),
                  b_Annotations = bp_Annotations pod \<rparr>]"
  by (simp add: launchTask_def Let_def reportLostTask_def split: option.splits sum.splits)

text \<open>
  Claim C8. Let \<open>LaunchTask\<close> receive \<open>taskInfo\<close> while the executor is not done. If it
  is not connected, the only effect is one TASK_FAILED status with the message
  ExecutorUnregistered put on the outbox. If it is connected and the data does not
  decode, the only effect is one TASK_FAILED status with UnmarshalTaskDataFailure. If
  a record for the task id exists, nothing changes: no status, no goroutine. Else the
  record \<open>{taskInfo, podName = ""}\<close> is inserted and the continuation \<open>launchTask\<close> is
  started, and nothing else changes. \<open>LaunchTask\<close> itself never posts a binding; each run
  of the continuation posts one.
\<close>

theorem LaunchTask_cases:
  assumes "\<not> isDone k"
  shows
   "(\<not> isConnected k \<longrightarrow>
       LaunchTask env k taskInfo =
         k\<lparr> outgoing := outgoing k @
              [newStatus (ti_TaskId taskInfo) TASK_FAILED ExecutorUnregistered] \<rparr>)
    \<and> (isConnected k \<and> Unmarshal env (ti_Data taskInfo) = Inl err \<longrightarrow>
       LaunchTask env k taskInfo =
         k\<lparr> outgoing := outgoing k @
              [newStatus (ti_TaskId taskInfo) TASK_FAILED UnmarshalTaskDataFailure] \<rparr>)
    \<and> (isConnected k \<and> Unmarshal env (ti_Data taskInfo) = Inr pod
        \<and> ti_TaskId taskInfo = Some taskId \<and> ex_tasks k taskId = Some t \<longrightarrow>
       LaunchTask env k taskInfo = k)
    \<and> (isConnected k \<and> Unmarshal env (ti_Data taskInfo) = Inr pod
        \<and> ti_TaskId taskInfo = Some taskId \<and> ex_tasks k taskId = None \<longrightarrow>
       LaunchTask env k taskInfo =
         k\<lparr> ex_tasks := (ex_tasks k)(taskId \<mapsto> \<lparr> mesosTaskInfo = taskInfo, podName = [] \<rparr>),
            spawned := spawned k @ [Go_launchTask taskId pod] \<rparr>)
    \<and> posts (LaunchTask env k taskInfo) = posts k
    \<and> ts_State (newStatus i TASK_FAILED m) = TASK_FAILED
    \<and> length (posts (launchTask env k2 taskId pod)) = Suc (length (posts k2))"
proof -
  have p: "length (posts (launchTask env k2 taskId pod)) = Suc (length (posts k2))"
    by (simp add: posts_launchTask)
  show ?thesis
    using assms p
    by (auto simp: LaunchTask_def sendStatus_def isDone_def newStatus_def Let_def
        split: sum.splits option.splits)
qed

theorem LaunchTask_cases_witness:
  "\<not> isDone (ex_executor disconnectedState)
   \<and> \<not> isConnected (ex_executor disconnectedState)
   \<and> LaunchTask ex_env (ex_executor disconnectedState) (ex_taskInfo (Some ''p'')) =
       (ex_executor disconnectedState)\<lparr> outgoing :=
          [\<lparr> ts_TaskId = ''t1'', ts_State = TASK_FAILED, ts_Message = ExecutorUnregistered,
             ts_Data = None \<rparr>] \<rparr>
   \<and> \<not> isDone (ex_executor connectedState)
   \<and> isConnected (ex_executor connectedState)
   \<and> Unmarshal ex_env (ti_Data (ex_taskInfo None)) = Inl ''no data''
   \<and> LaunchTask ex_env (ex_executor connectedState) (ex_taskInfo None) =
       (ex_executor connectedState)\<lparr> outgoing :=
          [\<lparr> ts_TaskId = ''t1'', ts_State = TASK_FAILED, ts_Message = UnmarshalTaskDataFailure,
             ts_Data = None \<rparr>] \<rparr>
   \<and> ex_tasks (ex_executor connectedState) ''t1'' = None
   \<and> ex_tasks (LaunchTask ex_env (ex_executor connectedState) (ex_taskInfo (Some ''p''))) ''t1'' =
       Some \<lparr> mesosTaskInfo = ex_taskInfo (Some ''p''), podName = [] \<rparr>
   \<and> \<not> isDone (LaunchTask ex_env (ex_executor connectedState) (ex_taskInfo (Some ''p'')))
   \<and> isConnected (LaunchTask ex_env (ex_executor connectedState) (ex_taskInfo (Some ''p'')))
   \<and> LaunchTask ex_env (LaunchTask ex_env (ex_executor connectedState) (ex_taskInfo (Some ''p'')))
         (ex_taskInfo (Some ''p'')) =
       LaunchTask ex_env (ex_executor connectedState) (ex_taskInfo (Some ''p''))"
proof -
  let ?pod = "\<lparr> bp_Name = ''p'', bp_Namespace = ''default'', bp_SelfLink = [],
                 bp_Annotations = Map.empty, bp_Containers = [] \<rparr>"
  let ?k1 = "LaunchTask ex_env (ex_executor connectedState) (ex_taskInfo (Some ''p''))"
  have d: "\<not> isDone (ex_executor disconnectedState)" "\<not> isDone (ex_executor connectedState)"
    by (simp_all add: isDone_def ex_executor_def)
  have c: "\<not> isConnected (ex_executor disconnectedState)" "isConnected (ex_executor connectedState)"
    by (simp_all add: isConnected_def ex_executor_def)
  have u: "Unmarshal ex_env (ti_Data (ex_taskInfo None)) = Inl ''no data''"
    "Unmarshal ex_env (ti_Data (ex_taskInfo (Some ''p''))) = Inr ?pod"
    "ti_TaskId (ex_taskInfo x) = Some ''t1''" for x
    by (simp_all add: ex_env_def ex_taskInfo_def)
  have t: "ex_tasks (ex_executor connectedState) ''t1'' = None"
    by (simp add: ex_executor_def)
  have o: "outgoing (ex_executor st) = []" for st
    by (simp add: ex_executor_def)
  note a1 = LaunchTask_cases [OF d(1), of ex_env "ex_taskInfo (Some ''p'')"]
  note a2 = LaunchTask_cases [OF d(2), of ex_env "ex_taskInfo None" "''no data''"]
  note a3 = LaunchTask_cases [OF d(2), of ex_env "ex_taskInfo (Some ''p'')" _ ?pod "''t1''"]
  have k1: "?k1 = (ex_executor connectedState)\<lparr> ex_tasks := (ex_tasks (ex_executor connectedState))
                (''t1'' \<mapsto> \<lparr> mesosTaskInfo = ex_taskInfo (Some ''p''), podName = [] \<rparr>),
              spawned := spawned (ex_executor connectedState) @ [Go_launchTask ''t1'' ?pod] \<rparr>"
    using a3 c u t by simp
  have d1: "\<not> isDone ?k1" "isConnected ?k1"
    "ex_tasks ?k1 ''t1'' = Some \<lparr> mesosTaskInfo = ex_taskInfo (Some ''p''), podName = [] \<rparr>"
    unfolding k1 using d c by (simp_all add: isDone_def isConnected_def)
  note a4 = LaunchTask_cases [OF d1(1), of ex_env "ex_taskInfo (Some ''p'')" _ ?pod "''t1''"
                "\<lparr> mesosTaskInfo = ex_taskInfo (Some ''p''), podName = [] \<rparr>"]
  have r4: "LaunchTask ex_env ?k1 (ex_taskInfo (Some ''p'')) = ?k1"
    using a4 d1 u by simp
  show ?thesis
    using a1 a2 c d u t d1 r4 by (simp add: o newStatus_def)
qed

subsection \<open>Binding a pod\<close>




lemma ex_offers_eq:
  "ex_offers = \<lparr> TTL = 10, LingerTTL = 5, ListenerDelay = 0,
       objs = (\<lambda>r. expiredOffer [] [] 0)(0 := liveOffer ex_offer 10 0), next_ref = 1,
       offers = [(''o1'', 0)], delayed = [0], listeners = [],
       chans = [], declined = [], timers = [] \<rparr>"
  by (simp add: ex_offers_def CreateRegistry_def new_obj_def ex_offer_def)

lemma ex_sched_registry:
  "registry ex_sched = \<lparr> TTL = 10, LingerTTL = 5, ListenerDelay = 0,
       objs = (\<lambda>r. expiredOffer [] [] 0)(0 := liveOffer ex_offer 10 1), next_ref = 1,
       offers = [(''o1'', 0)], delayed = [0], listeners = [],
       chans = [], declined = [], timers = [] \<rparr>"
  by (simp add: ex_sched_def ex_offers_eq obj_Acquire_def CompareAndSwapInt32_def)



subsection \<open>Scheduling, deleting and rescheduling a pod\<close>

lemma events_put_task [simp]: "events (put_task t k) = events k"
  by (simp add: put_task_def)



lemma ex_sched_facts:
  "MakePodKey (ex_sched_env l) (pod_Namespace ex_pod) (pod_Name ex_pod) = Inr ''default/p1''"
  "MakePodKey (ex_sched_env l) (pod_Namespace (ex_pod\<lparr> pod_UID := u \<rparr>))
     (pod_Name (ex_pod\<lparr> pod_UID := u \<rparr>)) = Inr ''default/p1''"
  "taskForPod ex_sched ''default/p1'' = Some ''t1''"
  "taskRegistry ex_sched ''t1'' = Some ex_task"
  "task_State ex_task = StatePending" "\<not> Has ex_task Launched"
  "pod_UID ex_pod = pod_UID (task_Pod ex_task)" "pod_UID (task_Pod ex_task) = ''u1''"
  "task_ID ex_task = ''t1''" "events ex_sched = []"
  by (simp_all add: ex_sched_env_def ex_pod_def ex_sched_def taskForPod_def ex_task_def Has_def)

lemma ex_deleted_facts:
  "MakePodKey ex_env_deleted (pod_Namespace ex_pod) (pod_Name ex_pod) = Inr ''default/p1''"
  "taskForPod ex_sched_empty ''default/p1'' = None"
  "MetaNamespaceKeyFunc ex_env_deleted ex_pod = Inr ''default/p1''"
  "Poll ex_env_deleted (podUpdates ex_sched_empty) ''default/p1'' DELETE_EVENT = (True, ())"
  by (simp_all add: ex_env_deleted_def ex_sched_env_def ex_pod_def ex_sched_empty_def
      taskForPod_def)




lemma ex_delete_facts:
  "MakePodKey (ex_sched_env None) (pod_Namespace (q_Pod ex_qpod)) (pod_Name (q_Pod ex_qpod))
     = Inr ''default/p1''"
  "HasAcceptedOffer ex_task" "task_Offer ex_task = Some 0"
  "taskForPod ex_sched_launched ''default/p1'' = Some ''t1''"
  "taskRegistry ex_sched_launched ''t1'' = Some (Set_flag ex_task Launched)"
  "task_State (Set_flag ex_task Launched) = StatePending" "Has (Set_flag ex_task Launched) Launched"
  "driver_KillTask (ex_sched_env None) ''t1'' = None"
  "events ex_sched_launched = []" "GetUID (ex_sched_env None) ex_qpod = ''default/p1''"
  by (simp_all add: ex_sched_env_def ex_qpod_def ex_pod_def ex_task_def HasAcceptedOffer_def
      ex_sched_launched_def put_task_def Set_flag_def ex_sched_def taskForPod_def Has_def)


lemma breakout_filter_eq:
  "breakout_filter env taskId reg offer =
     (case reg taskId of
        None \<Rightarrow> True
      | Some t \<Rightarrow> if task_State t = StatePending then \<not> Has t Launched \<and> AcceptOffer env t offer
                  else True)"
  by (cases "reg taskId"; cases "task_State (the (reg taskId))")
     (simp_all add: breakout_filter_def registry_Get_def)

lemma handle_registers_listener:
  assumes "MakePodKey env (pod_Namespace pod) (pod_Name pod) = Inr podKey"
    and "taskForPod k podKey = Some taskId" and "taskRegistry k taskId = Some task"
    and "task_State task = StatePending" and "\<not> Has task Launched"
  shows "map_of (listeners (registry (handleSchedulingError env now k pod noSuitableOffersErr)))
           podKey
         = Some \<lparr> l_id = podKey, accepts = breakout_filter env taskId,
                  notify = length (chans (registry k)), age = 0,
                  l_deadline = now + ListenerDelay (registry k), sawVersion = 0 \<rparr>"
proof -
  have "registry (handleSchedulingError env now k pod noSuitableOffersErr)
          = snd (Listen now (registry k) podKey (Some (breakout_filter env taskId)))"
    using assms
    by (auto simp: handleSchedulingError_def Let_def getTask_def registry_Get_def requeue_def
        taskForPod_def split: prod.splits)
  then show ?thesis
    by (simp add: Listen_def make_chan_def map_of_fifo_Offer_Replace)
qed

text \<open>
  Claim C4, as amended. For \<open>noSuchPodErr\<close> the handler changes nothing. For any other
  error, with the pod key built: if no task maps to the key, or the task is Pending and
  Launched, or it is not Pending, the only change is the garbage collection of the
  back-off table: nothing is queued and no listener is registered. Otherwise the pod
  is added to \<open>podQueue\<close> with \<open>KeepExisting\<close>, with the back-off delay and the break-out
  channel; a listener is registered under the pod key exactly when the error is
  \<open>noSuitableOffersErr\<close>. Its filter, called later on a task registry and an offer,
  accepts when the task is then Pending, not Launched and \<open>AcceptOffer\<close> holds, and also
  whenever the task is then not Pending or no longer registered.
\<close>

theorem handleSchedulingError_cases:
  assumes "MakePodKey env (pod_Namespace pod) (pod_Name pod) = Inr podKey"
    and "schedulingErr \<noteq> noSuchPodErr"
  shows
   "handleSchedulingError env now k pod noSuchPodErr = k
    \<and> (taskForPod k podKey = None
      \<longrightarrow> handleSchedulingError env now k pod schedulingErr
            = k\<lparr> backoff := backoff_gc now (backoff k) \<rparr>)
    \<and> (taskForPod k podKey = Some taskId \<and> taskRegistry k taskId = Some task
        \<and> (task_State task = StatePending \<and> Has task Launched \<or> task_State task \<noteq> StatePending)
      \<longrightarrow> handleSchedulingError env now k pod schedulingErr
            = k\<lparr> backoff := backoff_gc now (backoff k) \<rparr>)
    \<and> (taskForPod k podKey = Some taskId \<and> taskRegistry k taskId = None
      \<longrightarrow> handleSchedulingError env now k pod schedulingErr
            = k\<lparr> backoff := backoff_gc now (backoff k) \<rparr>)
    \<and> (taskForPod k podKey = Some taskId \<and> taskRegistry k taskId = Some task
        \<and> task_State task = StatePending \<and> \<not> Has task Launched
      \<longrightarrow> podQueue (handleSchedulingError env now k pod schedulingErr) =
            fifo_Add
              (GetUID env \<lparr> q_Pod = pod, q_deadline = None,
                 q_delay = Some (fst (getBackoff now (backoff_gc now (backoff k)) podKey)),
                 q_notify = (if schedulingErr = noSuitableOffersErr
                             then Some (length (chans (registry k))) else None) \<rparr>)
              \<lparr> q_Pod = pod, q_deadline = None,
                q_delay = Some (fst (getBackoff now (backoff_gc now (backoff k)) podKey)),
                q_notify = (if schedulingErr = noSuitableOffersErr
                            then Some (length (chans (registry k))) else None) \<rparr>
              KeepExisting (podQueue k)
          \<and> (schedulingErr = noSuitableOffersErr \<longrightarrow>
                registry (handleSchedulingError env now k pod schedulingErr)
                  = snd (Listen now (registry k) podKey (Some (breakout_filter env taskId)))
                \<and> map_of (listeners (registry (handleSchedulingError env now k pod schedulingErr)))
                     podKey
                  = Some \<lparr> l_id = podKey, accepts = breakout_filter env taskId,
                           notify = length (chans (registry k)), age = 0,
                           l_deadline = now + ListenerDelay (registry k), sawVersion = 0 \<rparr>)
          \<and> (schedulingErr \<noteq> noSuitableOffersErr \<longrightarrow>
                registry (handleSchedulingError env now k pod schedulingErr) = registry k))
    \<and> breakout_filter env taskId reg offer =
         (case reg taskId of
            None \<Rightarrow> True
          | Some t \<Rightarrow> if task_State t = StatePending
                      then \<not> Has t Launched \<and> AcceptOffer env t offer
                      else True)"
proof -
  let ?k0 = "k\<lparr> backoff := backoff_gc now (backoff k) \<rparr>"
  let ?h = "handleSchedulingError env now k pod schedulingErr"
  have q: "taskForPod ?k0 = taskForPod k" "getTask ?k0 = getTask k"
    by (simp_all add: taskForPod_def getTask_def fun_eq_iff)
  have a: "handleSchedulingError env now k pod noSuchPodErr = k"
    by (simp add: handleSchedulingError_def)
  have b: "?h = ?k0" if "taskForPod k podKey = None"
    using that assms q by (simp add: handleSchedulingError_def Let_def)
  have c: "?h = ?k0"
    if "taskForPod k podKey = Some taskId" "taskRegistry k taskId = Some task"
      "task_State task = StatePending \<and> Has task Launched \<or> task_State task \<noteq> StatePending"
    using that assms q
    by (cases "task_State task")
       (auto simp: handleSchedulingError_def Let_def getTask_def registry_Get_def)
  have d: "podQueue ?h =
            fifo_Add
              (GetUID env \<lparr> q_Pod = pod, q_deadline = None,
                 q_delay = Some (fst (getBackoff now (backoff_gc now (backoff k)) podKey)),
                 q_notify = (if schedulingErr = noSuitableOffersErr
                             then Some (length (chans (registry k))) else None) \<rparr>)
              \<lparr> q_Pod = pod, q_deadline = None,
                q_delay = Some (fst (getBackoff now (backoff_gc now (backoff k)) podKey)),
                q_notify = (if schedulingErr = noSuitableOffersErr
                            then Some (length (chans (registry k))) else None) \<rparr>
              KeepExisting (podQueue k)
          \<and> (schedulingErr = noSuitableOffersErr \<longrightarrow>
                registry ?h = snd (Listen now (registry k) podKey (Some (breakout_filter env taskId))))
          \<and> (schedulingErr \<noteq> noSuitableOffersErr \<longrightarrow> registry ?h = registry k)"
    if "taskForPod k podKey = Some taskId" "taskRegistry k taskId = Some task"
      "task_State task = StatePending" "\<not> Has task Launched"
    using that assms q
    by (auto simp: handleSchedulingError_def Let_def getTask_def registry_Get_def requeue_def
        Listen_def make_chan_def split: prod.splits)
  have l: "map_of (listeners (snd (Listen now (registry k) podKey (Some (breakout_filter env taskId)))))
             podKey
           = Some \<lparr> l_id = podKey, accepts = breakout_filter env taskId,
                    notify = length (chans (registry k)), age = 0,
                    l_deadline = now + ListenerDelay (registry k), sawVersion = 0 \<rparr>"
    by (simp add: Listen_def make_chan_def map_of_fifo_Offer_Replace)
  have m: "?h = ?k0" if "taskForPod k podKey = Some taskId" "taskRegistry k taskId = None"
    using that assms q
    by (simp add: handleSchedulingError_def Let_def getTask_def registry_Get_def)
  show ?thesis using a b c d l m breakout_filter_eq [of env taskId reg offer] by simp
qed

lemma ex_handle_facts:
  "MakePodKey (ex_sched_env None) (pod_Namespace ex_pod) (pod_Name ex_pod) = Inr ''default/p1''"
  "noSuitableOffersErr \<noteq> noSuchPodErr" "Errorf ''expired'' \<noteq> noSuchPodErr"
  "chans (registry ex_sched) = []" "ListenerDelay (registry ex_sched) = 0"
  "podQueue ex_sched = []" "backoff ex_sched = Map.empty"
  "GetUID (ex_sched_env None) \<lparr> q_Pod = ex_pod, q_deadline = dl, q_delay = de, q_notify = n \<rparr>
     = ''default/p1''"
  by (simp_all add: ex_sched_env_def ex_pod_def ex_sched_registry) (simp_all add: ex_sched_def)

lemma ex_backoff:
  "fst (getBackoff 0 (backoff_gc 0 Map.empty) ''default/p1'') = 1000000000"
  by (simp add: getBackoff_def backoff_gc_def defaultDuration_def)

theorem handleSchedulingError_cases_witness:
  "MakePodKey (ex_sched_env None) (pod_Namespace ex_pod) (pod_Name ex_pod) = Inr ''default/p1''
   \<and> noSuitableOffersErr \<noteq> noSuchPodErr \<and> Errorf ''expired'' \<noteq> noSuchPodErr
   \<and> taskForPod ex_sched_empty ''default/p1'' = None
   \<and> handleSchedulingError (ex_sched_env None) 0 ex_sched_empty ex_pod noSuitableOffersErr
       = ex_sched_empty\<lparr> backoff := backoff_gc 0 (backoff ex_sched_empty) \<rparr>
   \<and> taskForPod ex_sched_launched ''default/p1'' = Some ''t1''
   \<and> taskRegistry ex_sched_launched ''t1'' = Some (Set_flag ex_task Launched)
   \<and> task_State (Set_flag ex_task Launched) = StatePending
   \<and> Has (Set_flag ex_task Launched) Launched
   \<and> handleSchedulingError (ex_sched_env None) 0 ex_sched_launched ex_pod noSuitableOffersErr
       = ex_sched_launched\<lparr> backoff := backoff_gc 0 (backoff ex_sched_launched) \<rparr>
   \<and> taskForPod ex_sched ''default/p1'' = Some ''t1'' \<and> taskRegistry ex_sched ''t1'' = Some ex_task
   \<and> task_State ex_task = StatePending \<and> \<not> Has ex_task Launched
   \<and> podQueue (handleSchedulingError (ex_sched_env None) 0 ex_sched ex_pod noSuitableOffersErr)
       = [(''default/p1'', \<lparr> q_Pod = ex_pod, q_deadline = None, q_delay = Some 1000000000,
                              q_notify = Some 0 \<rparr>)]
   \<and> map_of (listeners (registry
         (handleSchedulingError (ex_sched_env None) 0 ex_sched ex_pod noSuitableOffersErr)))
         ''default/p1''
       = Some \<lparr> l_id = ''default/p1'', accepts = breakout_filter (ex_sched_env None) ''t1'',
                notify = 0, age = 0, l_deadline = 0, sawVersion = 0 \<rparr>
   \<and> podQueue (handleSchedulingError (ex_sched_env None) 0 ex_sched ex_pod (Errorf ''expired''))
       = [(''default/p1'', \<lparr> q_Pod = ex_pod, q_deadline = None, q_delay = Some 1000000000,
                              q_notify = None \<rparr>)]
   \<and> registry (handleSchedulingError (ex_sched_env None) 0 ex_sched ex_pod (Errorf ''expired''))
       = registry ex_sched"
  using handleSchedulingError_cases [OF ex_handle_facts(1,2), where k = ex_sched_empty
      and now = 0 and taskId = "''t1''" and task = ex_task and reg = Map.empty and offer = None]
    handleSchedulingError_cases [OF ex_handle_facts(1,2), where k = ex_sched_launched
      and now = 0 and taskId = "''t1''" and task = "Set_flag ex_task Launched"
      and reg = Map.empty and offer = None]
    handleSchedulingError_cases [OF ex_handle_facts(1,2), where k = ex_sched
      and now = 0 and taskId = "''t1''" and task = ex_task and reg = Map.empty and offer = None]
    handleSchedulingError_cases [OF ex_handle_facts(1,3), where k = ex_sched
      and now = 0 and taskId = "''t1''" and task = ex_task and reg = Map.empty and offer = None]
    ex_handle_facts ex_delete_facts(4-7) ex_sched_facts(3-6) ex_deleted_facts(2) ex_backoff
  by (auto simp: fifo_Add_def fifo_Offer_def)

text \<open>
  Claim C4 says that the filter accepts exactly when the task is still Pending, not
  Launched and accepts the offer. The listener that the handler registers for the
  pending task \<open>t1\<close> accepts an offer once the task is Running, or gone from the
  registry, although \<open>AcceptOffer\<close> is false: the closure returns true in its default
  branch ("no point in continuing to check for matching offers").
\<close>

theorem breakout_filter_counterexample:
  "map_of (listeners (registry
      (handleSchedulingError (ex_sched_env None) 0 ex_sched ex_pod noSuitableOffersErr)))
      ''default/p1''
    = Some \<lparr> l_id = ''default/p1'', accepts = breakout_filter (ex_sched_env None) ''t1'',
             notify = 0, age = 0, l_deadline = 0, sawVersion = 0 \<rparr>
   \<and> breakout_filter (ex_sched_env None) ''t1''
        [''t1'' \<mapsto> ex_task\<lparr> task_State := StateRunning \<rparr>] (Some ex_offer)
   \<and> \<not> (task_State (ex_task\<lparr> task_State := StateRunning \<rparr>) = StatePending
          \<and> \<not> Has (ex_task\<lparr> task_State := StateRunning \<rparr>) Launched
          \<and> AcceptOffer (ex_sched_env None) (ex_task\<lparr> task_State := StateRunning \<rparr>)
                (Some ex_offer))
   \<and> breakout_filter (ex_sched_env None) ''t1'' Map.empty (Some ex_offer)"
  using handle_registers_listener [OF ex_handle_facts(1) ex_sched_facts(3-6), of 0]
  by (simp add: ex_handle_facts(4,5) breakout_filter_def registry_Get_def
      ex_sched_env_def Has_def ex_task_def)

end
